theory Spec2Isabelle
  imports Complex_Main "HOL-Library.Word"
begin

section \<open>JavaScript values, strings and network results\<close>

text \<open>
  A JavaScript string is its sequence of UTF-16 code units, each a natural number. \<open>lit\<close>
  gives the code units of a string literal of the scripts (all of them ASCII).
\<close>

type_synonym jsstring = "nat list"

definition lit :: "string \<Rightarrow> jsstring" where
  "lit s = map of_char s"

text \<open>
  The values a parsed JSON body can hold in the fields the scripts read. Numbers are the
  integer scores the report carries; \<open>JArr\<close> is an array of strings.
\<close>

datatype jsval = JUndefined | JNull | JBool bool | JNum int | JStr jsstring | JArr "jsstring list"

text \<open>JavaScript truthiness: \<open>undefined\<close>, \<open>null\<close>, \<open>false\<close>, \<open>0\<close> and \<open>""\<close> are falsy.\<close>

fun truthy :: "jsval \<Rightarrow> bool" where
  "truthy JUndefined = False"
| "truthy JNull = False"
| "truthy (JBool b) = b"
| "truthy (JNum n) = (n \<noteq> 0)"
| "truthy (JStr s) = (s \<noteq> [])"
| "truthy (JArr xs) = True"

text \<open>The expression \<open>v || 'N/A'\<close> of the report templates.\<close>

definition or_NA :: "jsval \<Rightarrow> jsval" where
  "or_NA v = (if truthy v then v else JStr (lit ''N/A''))"

text \<open>
  \<open>x || d\<close> for a field that is a string when present: an absent and an empty string
  both give the default.
\<close>

definition or_str :: "jsstring option \<Rightarrow> jsstring \<Rightarrow> jsstring" where
  "or_str x d = (case x of None \<Rightarrow> d | Some m \<Rightarrow> if m = [] then d else m)"

text \<open>
  \<open>new Error(x).message\<close>: the empty string when \<open>x\<close> is \<open>undefined\<close>, the string
  itself otherwise.
\<close>

definition error_message :: "jsstring option \<Rightarrow> jsstring" where
  "error_message x = (case x of None \<Rightarrow> [] | Some m \<Rightarrow> m)"

text \<open>
  \<open>String.prototype.trim\<close> removes the code units of WhiteSpace and LineTerminator from
  both ends: tab, line feed, vertical tab, form feed, carriage return, space, no-break
  space (U+00A0), U+1680, U+2000 to U+200A, U+2028, U+2029, U+202F, U+205F, U+3000 and
  U+FEFF.
\<close>

definition is_space :: "nat \<Rightarrow> bool" where
  "is_space c =
     (c \<in> set [0x09, 0x0A, 0x0B, 0x0C, 0x0D, 0x20, 0xA0, 0x1680, 0x2028, 0x2029, 0x202F,
               0x205F, 0x3000, 0xFEFF]
      \<or> (0x2000 \<le> c \<and> c \<le> 0x200A))"

definition trim :: "jsstring \<Rightarrow> jsstring" where
  "trim s = rev (dropWhile is_space (rev (dropWhile is_space s)))"

text \<open>
  An entry \<open>{ role: r, parts: [{ text: t }] }\<close> of \<open>conversationHistory\<close>. The text is
  \<open>None\<close> where the script stores \<open>undefined\<close>.
\<close>

datatype role = Model | User

datatype entry = Entry (entry_role: role) (entry_text: "jsstring option")

text \<open>
  What \<open>await fetch(...)\<close> followed by \<open>await response.json()\<close> gives: \<open>Rejected m\<close> when
  either of them throws an error with message \<open>m\<close> (also when the body is not an object
  and reading a field of it throws), \<open>Response ok body\<close> otherwise.
\<close>

datatype 'b fetch_result = Rejected jsstring | Response bool 'b

record analyze_body =
  analyze_error :: "jsstring option"
  analyze_questions :: "jsstring list option"

record followup_body =
  followup_error :: "jsstring option"
  followup_question :: "jsstring option"

record report_body =
  report_error :: "jsstring option"
  overallScore :: jsval
  strengths :: jsval
  weaknesses :: jsval
  suggestion :: jsval

text \<open>The requests the scripts send, with what each carries.\<close>

datatype request =
    PostAnalyzeForm "jsstring option" jsstring
  | PostAnalyzeJson
  | PostFollowUp "entry list"
  | PostEvaluate "jsstring list"

text \<open>What the element \<open>report-content\<close> shows.\<close>

datatype report_view =
    NoReport
  | Evaluating
  | Report jsval jsval jsval jsval
  | ReportError jsstring

datatype js_error = TypeError

section \<open>interview.js: the voice interview\<close>

text \<open>
  The closure variables of the script, the properties of the elements of \<open>ui\<close> that the
  handlers read or write, and what the handlers do to the outside: requests sent, alerts
  shown, texts spoken, timers set with \<open>setTimeout(askNextQuestion, 500)\<close>.
  \<open>initialQuestions\<close> is \<open>None\<close> when the variable holds \<open>undefined\<close>.
\<close>

record page =
  initialQuestions :: "jsstring list option"
  conversationHistory :: "entry list"
  allUserAnswers :: "jsstring list"
  currentQuestionIndex :: nat
  isRecording :: bool
  currentTranscript :: jsstring
  resumeFile :: "jsstring option"
  fileName :: jsstring
  jobRoleInput :: jsstring
  selectResumeBtn_disabled :: bool
  jobRoleSection_hidden :: bool
  uploadLoader_hidden :: bool
  uploadError_text :: jsstring
  uploadError_hidden :: bool
  uploadSection_hidden :: bool
  interviewContainer_hidden :: bool
  startInterviewBtn_disabled :: bool
  recordBtn_disabled :: bool
  recordBtn_label :: jsstring
  recordBtn_is_recording :: bool
  questionText :: jsstring
  responsesLog :: "(jsstring \<times> jsstring) list"
  reportResults_hidden :: bool
  reportContent :: report_view
  statusDot :: jsstring
  statusText :: jsstring
  avatarStarted :: bool
  requests :: "request list"
  alerts :: "jsstring list"
  spoken :: "jsstring list"
  timers :: nat

definition updateStatus :: "jsstring \<Rightarrow> jsstring \<Rightarrow> page \<Rightarrow> page" where
  "updateStatus status txt s =
     s\<lparr>statusDot := (lit ''status-dot status-'') @ status, statusText := txt\<rparr>"

definition logToConversation :: "jsstring \<Rightarrow> jsstring \<Rightarrow> page \<Rightarrow> page" where
  "logToConversation r txt s = s\<lparr>responsesLog := responsesLog s @ [(r, txt)]\<rparr>"

text \<open>\<open>speak\<close>, with the utterance spoken to its end.\<close>

definition speak :: "jsstring \<Rightarrow> page \<Rightarrow> page" where
  "speak txt s =
     updateStatus (lit ''status-idle'') (lit ''Ready for your answer.'')
       ((updateStatus (lit ''status-speaking'') (lit ''AI is speaking...'') s)\<lparr>spoken := spoken s @ [txt]\<rparr>)"

definition handleFileSelection :: "page \<Rightarrow> page" where
  "handleFileSelection s =
     (case resumeFile s of
        None \<Rightarrow> s
      | Some f \<Rightarrow> s\<lparr>fileName := (lit ''Selected: '') @ f,
                     selectResumeBtn_disabled := True,
                     jobRoleSection_hidden := False\<rparr>)"

text \<open>
  The \<open>try\<close> block of \<open>handleJobRoleSubmit\<close> up to the assignment: the message of the error
  thrown (\<open>Inl\<close>), or the body of an ok response. After the assignment the handler calls
  \<open>initAvatar\<close>, \<open>setupMedia\<close> and \<open>setupSpeechSynthesis\<close>, which are taken to return
  normally; \<open>avatarStarted\<close> records that they were called.
\<close>

definition analyze_outcome :: "analyze_body fetch_result \<Rightarrow> jsstring + analyze_body" where
  "analyze_outcome resp =
     (case resp of
        Rejected m \<Rightarrow> Inl m
      | Response ok d \<Rightarrow>
          if \<not> ok then Inl (or_str (analyze_error d) (lit ''Failed to analyze resume.''))
          else Inr d)"

definition handleJobRoleSubmit :: "analyze_body fetch_result \<Rightarrow> page \<Rightarrow> page" where
  "handleJobRoleSubmit resp s =
     (let jobRole = trim (jobRoleInput s); file = resumeFile s in
      if jobRole = [] then s\<lparr>alerts := alerts s @ [(lit ''Please enter a target job role.'')]\<rparr>
      else
        let s1 = s\<lparr>uploadLoader_hidden := False,
                   jobRoleSection_hidden := True,
                   uploadError_text := [],
                   requests := requests s @ [PostAnalyzeForm file jobRole]\<rparr>
        in case analyze_outcome resp of
             Inr d \<Rightarrow> s1\<lparr>initialQuestions := analyze_questions d,
                          uploadSection_hidden := True,
                          interviewContainer_hidden := False,
                          avatarStarted := True\<rparr>
           | Inl m \<Rightarrow> s1\<lparr>uploadLoader_hidden := True,
                          uploadError_text := m,
                          uploadError_hidden := False,
                          selectResumeBtn_disabled := False\<rparr>)"

text \<open>
  The \<open>try\<close> blocks around \<open>/api/evaluate\<close> and \<open>/api/follow-up\<close>: a response that is
  not ok throws \<open>new Error(body.error)\<close>.
\<close>

definition evaluate_outcome :: "report_body fetch_result \<Rightarrow> jsstring + report_body" where
  "evaluate_outcome resp =
     (case resp of
        Rejected m \<Rightarrow> Inl m
      | Response ok r \<Rightarrow> if \<not> ok then Inl (error_message (report_error r)) else Inr r)"

definition followup_outcome :: "followup_body fetch_result \<Rightarrow> jsstring + followup_body" where
  "followup_outcome resp =
     (case resp of
        Rejected m \<Rightarrow> Inl m
      | Response ok d \<Rightarrow> if \<not> ok then Inl (error_message (followup_error d)) else Inr d)"

text \<open>The four fields of the report template, each with its \<open>|| 'N/A'\<close>.\<close>

definition render_report :: "report_body \<Rightarrow> report_view" where
  "render_report r =
     Report (or_NA (overallScore r)) (or_NA (strengths r))
            (or_NA (weaknesses r)) (or_NA (suggestion r))"

definition endInterview :: "report_body fetch_result \<Rightarrow> page \<Rightarrow> page" where
  "endInterview resp s =
     (let s1 = speak (lit ''That concludes the interview. Generating your report now.'') s;
          s2 = s1\<lparr>recordBtn_disabled := True,
                  reportResults_hidden := False,
                  reportContent := Evaluating,
                  requests := requests s1 @ [PostEvaluate (allUserAnswers s1)]\<rparr>
      in case evaluate_outcome resp of
           Inr r \<Rightarrow> updateStatus (lit ''status-idle'') (lit ''Report Complete.'')
                      (s2\<lparr>reportContent := render_report r\<rparr>)
         | Inl m \<Rightarrow> s2\<lparr>reportContent := ReportError m\<rparr>)"

text \<open>
  \<open>askNextQuestion\<close>. Reading \<open>initialQuestions.length\<close> throws a TypeError when the
  variable is \<open>undefined\<close>, before anything is changed. The argument is the result of the
  \<open>/api/evaluate\<close> request, used when the interview ends.
\<close>

definition askNextQuestion :: "report_body fetch_result \<Rightarrow> page \<Rightarrow> js_error + page" where
  "askNextQuestion resp s =
     (case initialQuestions s of
        None \<Rightarrow> Inl TypeError
      | Some qs \<Rightarrow>
          if currentQuestionIndex s \<ge> length qs then Inr (endInterview resp s)
          else
            let question = qs ! currentQuestionIndex s;
                s1 = s\<lparr>currentQuestionIndex := currentQuestionIndex s + 1\<rparr>;
                s2 = s1\<lparr>conversationHistory :=
                          conversationHistory s1 @ [Entry Model (Some question)],
                        questionText := question\<rparr>;
                s3 = logToConversation (lit ''Improvyu'') question s2;
                s4 = speak question (s3\<lparr>recordBtn_disabled := True\<rparr>)
            in Inr (s4\<lparr>recordBtn_disabled := False\<rparr>))"

text \<open>\<open>xs.splice(i, 0, x)\<close>: the start index is clamped to the length of the array.\<close>

definition splice_insert :: "nat \<Rightarrow> 'a \<Rightarrow> 'a list \<Rightarrow> 'a list" where
  "splice_insert i x xs =
     (let k = min i (length xs) in take k xs @ [x] @ drop k xs)"

text \<open>
  \<open>toggleRecording\<close>; the argument says whether the browser has a \<open>SpeechRecognition\<close>
  constructor. Stopping and starting the recogniser change nothing here: the browser
  answers with the events below.
\<close>

definition toggleRecording :: "bool \<Rightarrow> page \<Rightarrow> page" where
  "toggleRecording supported s =
     (if isRecording s then s
      else if \<not> supported
      then s\<lparr>alerts := alerts s @ [(lit ''Speech Recognition is not supported by this browser.'')]\<rparr>
      else s\<lparr>currentTranscript := []\<rparr>)"

definition recognition_onstart :: "page \<Rightarrow> page" where
  "recognition_onstart s =
     (updateStatus (lit ''status-listening'') (lit ''Listening...'') (s\<lparr>isRecording := True\<rparr>))
       \<lparr>recordBtn_label := (lit ''Stop Recording''), recordBtn_is_recording := True\<rparr>"

text \<open>The argument holds \<open>r[0].transcript\<close> for each result \<open>r\<close> of the event.\<close>

definition recognition_onresult :: "jsstring list \<Rightarrow> page \<Rightarrow> page" where
  "recognition_onresult transcripts s = s\<lparr>currentTranscript := concat transcripts\<rparr>"

text \<open>
  The body of the inner \<open>try\<close> of \<open>onend\<close> after the request: a follow-up that is
  neither falsy nor the sentinel is spliced in; the TypeError of \<open>splice\<close> on
  \<open>undefined\<close> is caught like a failed request.
\<close>

definition insert_followup :: "followup_body fetch_result \<Rightarrow> page \<Rightarrow> page" where
  "insert_followup resp s =
     (case followup_outcome resp of
        Inl m \<Rightarrow> s
      | Inr d \<Rightarrow>
          (case followup_question d of
             None \<Rightarrow> s
           | Some followUp \<Rightarrow>
               if followUp \<noteq> [] \<and> followUp \<noteq> (lit ''[NEXT_QUESTION]'')
               then (case initialQuestions s of
                       None \<Rightarrow> s
                     | Some qs \<Rightarrow>
                         s\<lparr>initialQuestions :=
                             Some (splice_insert (currentQuestionIndex s) followUp qs)\<rparr>)
               else s))"

definition recognition_onend :: "followup_body fetch_result \<Rightarrow> page \<Rightarrow> page" where
  "recognition_onend resp s =
     (let s1 = updateStatus (lit ''status-processing'') (lit ''Processing...'') (s\<lparr>isRecording := False\<rparr>);
          s2 = s1\<lparr>recordBtn_label := (lit ''Record Answer''), recordBtn_is_recording := False\<rparr>;
          s3 = (if currentTranscript s2 \<noteq> []
                then
                  let s4 = s2\<lparr>allUserAnswers := allUserAnswers s2 @ [currentTranscript s2]\<rparr>;
                      s5 = s4\<lparr>conversationHistory :=
                                conversationHistory s4 @ [Entry User (Some (currentTranscript s4))]\<rparr>;
                      s6 = logToConversation (lit ''You'') (currentTranscript s5) s5;
                      s7 = s6\<lparr>requests := requests s6 @ [PostFollowUp (conversationHistory s6)]\<rparr>
                  in insert_followup resp s7
                else s2)
      in s3\<lparr>timers := timers s3 + 1\<rparr>)"

text \<open>The click handler of the start button.\<close>

definition startInterviewBtn_click :: "report_body fetch_result \<Rightarrow> page \<Rightarrow> js_error + page" where
  "startInterviewBtn_click resp s = askNextQuestion resp (s\<lparr>startInterviewBtn_disabled := True\<rparr>)"

text \<open>A pending \<open>setTimeout(askNextQuestion, 500)\<close> fires.\<close>

definition timer_fires :: "report_body fetch_result \<Rightarrow> page \<Rightarrow> js_error + page" where
  "timer_fires resp s =
     (if timers s = 0 then Inr s else askNextQuestion resp (s\<lparr>timers := timers s - 1\<rparr>))"

text \<open>
  What can happen on the page: the user picks a file or types a job role, clicks a
  button, the recogniser reports, a timer fires. A handler that throws leaves the state
  as it was when it threw; a timer that fired is gone whether or not its callback throws.
\<close>

datatype event =
    ChooseFile "jsstring option"
  | TypeJobRole jsstring
  | SubmitJobRole "analyze_body fetch_result"
  | StartClick "report_body fetch_result"
  | RecordClick bool
  | RecognitionStart
  | RecognitionResult "jsstring list"
  | RecognitionEnd "followup_body fetch_result"
  | TimerFires "report_body fetch_result"

definition keep_on_throw :: "page \<Rightarrow> js_error + page \<Rightarrow> page" where
  "keep_on_throw s r = (case r of Inl e \<Rightarrow> s | Inr t \<Rightarrow> t)"

fun step :: "event \<Rightarrow> page \<Rightarrow> page" where
  "step (ChooseFile f) s = handleFileSelection (s\<lparr>resumeFile := f\<rparr>)"
| "step (TypeJobRole v) s = s\<lparr>jobRoleInput := v\<rparr>"
| "step (SubmitJobRole r) s = handleJobRoleSubmit r s"
| "step (StartClick r) s =
     keep_on_throw (s\<lparr>startInterviewBtn_disabled := True\<rparr>) (startInterviewBtn_click r s)"
| "step (RecordClick b) s = toggleRecording b s"
| "step RecognitionStart s = recognition_onstart s"
| "step (RecognitionResult ts) s = recognition_onresult ts s"
| "step (RecognitionEnd r) s = recognition_onend r s"
| "step (TimerFires r) s =
     keep_on_throw (s\<lparr>timers := timers s - 1\<rparr>) (timer_fires r s)"

fun run :: "event list \<Rightarrow> page \<Rightarrow> page" where
  "run [] s = s"
| "run (e # es) s = run es (step e s)"

text \<open>The closure variables as lines 3 to 7 of the script initialise them.\<close>

definition fresh :: "page \<Rightarrow> bool" where
  "fresh s =
     (initialQuestions s = Some [] \<and> conversationHistory s = [] \<and> allUserAnswers s = [] \<and>
      currentQuestionIndex s = 0 \<and> \<not> isRecording s \<and> currentTranscript s = [])"

text \<open>Calling \<open>askNextQuestion\<close> a number of times in a row, up to the first throw.\<close>

fun askNextQuestion_times :: "nat \<Rightarrow> report_body fetch_result \<Rightarrow> page \<Rightarrow> js_error + page" where
  "askNextQuestion_times 0 resp s = Inr s"
| "askNextQuestion_times (Suc k) resp s =
     (case askNextQuestion resp s of
        Inl e \<Rightarrow> Inl e
      | Inr t \<Rightarrow> askNextQuestion_times k resp t)"

text \<open>The texts of the entries of a history with a given role, in order.\<close>

definition texts_of :: "role \<Rightarrow> entry list \<Rightarrow> jsstring option list" where
  "texts_of r h = map entry_text (filter (\<lambda>e. entry_role e = r) h)"

section \<open>interview.js: the avatar animation\<close>

text \<open>
  The variables that \<open>animateAvatar\<close> reads and writes; no interview handler touches them.
  \<open>analyser\<close> and \<open>avatar\<close> say whether the variable holds an object, \<open>avatar_scale\<close> is
  \<open>avatar.scale\<close>. JavaScript numbers are doubles: every arithmetic operation and every
  decimal literal is rounded, and the rounding is the parameter \<open>fl\<close> of the definitions
  below (the identity gives exact arithmetic).
\<close>

record avatar_state =
  analyser :: bool
  avatar :: bool
  smoothedVolume :: real
  avatar_scale :: "real \<times> real \<times> real"
  frames_requested :: nat
  rendered :: nat

text \<open>
  \<open>xs.reduce((a, b) => a + b)\<close>: with no initial value the first element starts the sum,
  and an empty array throws a TypeError.
\<close>

definition reduce_add :: "(real \<Rightarrow> real) \<Rightarrow> real list \<Rightarrow> js_error + real" where
  "reduce_add fl xs =
     (case xs of
        [] \<Rightarrow> Inl TypeError
      | x # ys \<Rightarrow> Inr (foldl (\<lambda>a b. fl (a + b)) x ys))"

text \<open>The elements of a \<open>Uint8Array\<close> as numbers.\<close>

definition byte_values :: "8 word list \<Rightarrow> real list" where
  "byte_values bs = map real (map unat bs)"

text \<open>Line 60: \<open>1 + (avg / 128.0) * 0.7\<close>.\<close>

definition targetScale_of :: "(real \<Rightarrow> real) \<Rightarrow> real \<Rightarrow> real" where
  "targetScale_of fl avg = fl (1 + fl (fl (avg / 128) * fl (7 / 10)))"

text \<open>Line 61: \<open>smoothedVolume += (targetScale - smoothedVolume) * 0.2\<close>.\<close>

definition smooth :: "(real \<Rightarrow> real) \<Rightarrow> real \<Rightarrow> real \<Rightarrow> real" where
  "smooth fl targetScale sv = fl (sv + fl (fl (targetScale - sv) * fl (2 / 10)))"

text \<open>
  One animation frame. The list holds the bytes that \<open>getByteFrequencyData\<close> wrote into
  \<open>audioDataArray\<close> (an array of \<open>frequencyBinCount\<close> = 32 elements).
\<close>

definition animateAvatar ::
  "(real \<Rightarrow> real) \<Rightarrow> 8 word list \<Rightarrow> avatar_state \<Rightarrow> js_error + avatar_state" where
  "animateAvatar fl audioDataArray s =
     (let s0 = s\<lparr>frames_requested := frames_requested s + 1\<rparr> in
      if analyser s0 \<and> avatar s0
      then
        (case reduce_add fl (byte_values audioDataArray) of
           Inl e \<Rightarrow> Inl e
         | Inr acc \<Rightarrow>
             let avg = fl (acc / real (length audioDataArray));
                 targetScale = targetScale_of fl avg;
                 s1 = s0\<lparr>smoothedVolume := smooth fl targetScale (smoothedVolume s0)\<rparr>;
                 s2 = s1\<lparr>avatar_scale :=
                          (smoothedVolume s1, smoothedVolume s1, smoothedVolume s1)\<rparr>
             in Inr (s2\<lparr>rendered := rendered s2 + 1\<rparr>))
      else Inr (s0\<lparr>rendered := rendered s0 + 1\<rparr>))"

text \<open>\<open>initAvatar\<close> creates the avatar and starts the animation.\<close>

definition initAvatar ::
  "(real \<Rightarrow> real) \<Rightarrow> 8 word list \<Rightarrow> avatar_state \<Rightarrow> js_error + avatar_state" where
  "initAvatar fl audioDataArray s = animateAvatar fl audioDataArray (s\<lparr>avatar := True\<rparr>)"

text \<open>The measured volume: the sum of the bytes, as a natural number.\<close>

definition byte_sum :: "8 word list \<Rightarrow> nat" where
  "byte_sum bs = sum_list (map unat bs)"

text \<open>
  The rounding returns every natural number up to a bound as it is. Doubles do so up to
  \<open>2 ^ 53\<close>; the sums of 32 bytes stay below 8161.
\<close>

definition exact_upto :: "(real \<Rightarrow> real) \<Rightarrow> nat \<Rightarrow> bool" where
  "exact_upto fl B = (\<forall>n \<le> B. fl (real n) = real n)"

text \<open>The volume after a frame, from the bytes and the volume before it.\<close>

definition frame_volume :: "(real \<Rightarrow> real) \<Rightarrow> 8 word list \<Rightarrow> real \<Rightarrow> real" where
  "frame_volume fl bs sv =
     smooth fl (targetScale_of fl (fl (real (byte_sum bs) / real (length bs)))) sv"

definition avatar_ready :: avatar_state where
  "avatar_ready =
     \<lparr>analyser = True, avatar = True, smoothedVolume = 0, avatar_scale = (1, 1, 1),
      frames_requested = 0, rendered = 0\<rparr>"

section \<open>The second script: landing page and text interview\<close>

text \<open>
  The script that follows \<open>interview.js\<close> in the source has closure variables and functions
  of the same names; its state fields, and the functions whose names are taken, carry the
  suffix \<open>_ip\<close> (interview page) or \<open>_lp\<close> (landing page).
\<close>

definition getDefaultQuestions :: "jsstring list" where
  "getDefaultQuestions =
     [(lit ''Tell me about a challenging project recently completed. What was the goal and outcome?''),
      (lit ''Walk through the design of a REST API built recently. What trade-offs were considered?''),
      (lit ''How is time complexity analyzed for a function that uses nested loops?''),
      (lit ''Explain how to diagnose and fix a memory leak in a Node/JS or Python service.''),
      (lit ''What is the difference between processes and threads, and when to use each?'')]"

subsection \<open>handleLandingPage\<close>

text \<open>
  \<open>interviewQuestions\<close> is the item of that name in \<open>sessionStorage\<close> (the JSON text of an
  array of strings, or nothing), \<open>location\<close> is \<open>window.location.href\<close>.
\<close>

record landing =
  selectedTool :: jsstring
  mainActionBtn_label :: jsstring
  errorMessage_lp :: jsstring
  loadingIndicator_lp :: jsstring
  resumeForm_display :: jsstring
  interviewQuestions :: "jsstring list option"
  location :: jsstring
  requests_lp :: "request list"

definition toolBtn_click :: "jsstring \<Rightarrow> landing \<Rightarrow> landing" where
  "toolBtn_click tool s =
     (let s1 = s\<lparr>selectedTool := tool\<rparr> in
      if selectedTool s1 = (lit ''ats'') then s1\<lparr>mainActionBtn_label := (lit ''Check Your Resume'')\<rparr>
      else if selectedTool s1 = (lit ''placement'') then s1\<lparr>mainActionBtn_label := (lit ''Explore Resources'')\<rparr>
      else s1\<lparr>mainActionBtn_label := (lit ''Start AI Interview'')\<rparr>)"




subsection \<open>handleInterviewPage\<close>

text \<open>
  A message of \<open>interview-box\<close> is the sender and the text; the text is \<open>None\<close> where the
  script interpolates \<open>undefined\<close>.
\<close>

record ipage =
  initialQuestions_ip :: "jsstring list"
  conversationHistory_ip :: "entry list"
  allUserAnswers_ip :: "jsstring list"
  currentQuestionIndex_ip :: nat
  interviewBox :: "(jsstring \<times> jsstring option) list"
  userAnswer_value :: jsstring
  userAnswer_disabled :: bool
  submitBtn_disabled :: bool
  reportSection_hidden :: bool
  userInputArea_hidden :: bool
  loadingIndicator_display :: jsstring
  errorMessage_text :: jsstring
  reportContent_ip :: report_view
  requests_ip :: "request list"

definition addMessageToBox :: "jsstring \<Rightarrow> jsstring option \<Rightarrow> ipage \<Rightarrow> ipage" where
  "addMessageToBox sender message s = s\<lparr>interviewBox := interviewBox s @ [(sender, message)]\<rparr>"

definition enableUserInput :: "ipage \<Rightarrow> ipage" where
  "enableUserInput s =
     s\<lparr>userAnswer_value := [], userAnswer_disabled := False, submitBtn_disabled := False\<rparr>"

definition disableUserInput :: "ipage \<Rightarrow> ipage" where
  "disableUserInput s = s\<lparr>userAnswer_disabled := True, submitBtn_disabled := True\<rparr>"

definition displayReport :: "report_body \<Rightarrow> ipage \<Rightarrow> ipage" where
  "displayReport report s =
     s\<lparr>reportContent_ip := render_report report, reportSection_hidden := False\<rparr>"

definition endInterview_ip :: "report_body fetch_result \<Rightarrow> ipage \<Rightarrow> ipage" where
  "endInterview_ip resp s =
     (let s1 = addMessageToBox (lit ''AI'')
                 (Some (lit ''Thank you for your answers. Generating your performance report now...'')) s;
          s2 = s1\<lparr>userInputArea_hidden := True,
                  loadingIndicator_display := (lit ''block''),
                  requests_ip := requests_ip s1 @ [PostEvaluate (allUserAnswers_ip s1)]\<rparr>;
          s3 = (case evaluate_outcome resp of
                  Inr report \<Rightarrow> displayReport report s2
                | Inl m \<Rightarrow> s2\<lparr>errorMessage_text := (lit ''Error generating report: '') @ m\<rparr>)
      in s3\<lparr>loadingIndicator_display := (lit ''none'')\<rparr>)"

definition askNextInitialQuestion :: "report_body fetch_result \<Rightarrow> ipage \<Rightarrow> ipage" where
  "askNextInitialQuestion resp s =
     (if currentQuestionIndex_ip s < length (initialQuestions_ip s)
      then
        let question = initialQuestions_ip s ! currentQuestionIndex_ip s;
            s1 = addMessageToBox (lit ''AI'') (Some question) s;
            s2 = s1\<lparr>conversationHistory_ip :=
                      conversationHistory_ip s1 @ [Entry Model (Some question)]\<rparr>;
            s3 = enableUserInput s2
        in s3\<lparr>currentQuestionIndex_ip := currentQuestionIndex_ip s3 + 1\<rparr>
      else endInterview_ip resp s)"

text \<open>\<open>startInterview\<close>; the first argument is the stored item \<open>interviewQuestions\<close>.\<close>

definition startInterview :: "jsstring list option \<Rightarrow> report_body fetch_result \<Rightarrow> ipage \<Rightarrow> ipage" where
  "startInterview storedQuestions resp s =
     askNextInitialQuestion resp
       (s\<lparr>initialQuestions_ip :=
            (case storedQuestions of None \<Rightarrow> getDefaultQuestions | Some qs \<Rightarrow> qs)\<rparr>)"

definition handleAnswerSubmission ::
  "followup_body fetch_result \<Rightarrow> report_body fetch_result \<Rightarrow> ipage \<Rightarrow> ipage" where
  "handleAnswerSubmission fresp eresp s =
     (let answer = trim (userAnswer_value s) in
      if answer = [] then s
      else
        let s1 = addMessageToBox (lit ''You'') (Some answer) (disableUserInput s);
            s2 = s1\<lparr>allUserAnswers_ip := allUserAnswers_ip s1 @ [answer]\<rparr>;
            s3 = s2\<lparr>conversationHistory_ip :=
                      conversationHistory_ip s2 @ [Entry User (Some answer)]\<rparr>;
            s4 = s3\<lparr>loadingIndicator_display := (lit ''block''),
                    requests_ip := requests_ip s3 @ [PostFollowUp (conversationHistory_ip s3)]\<rparr>;
            s5 = (case followup_outcome fresp of
                    Inr d \<Rightarrow>
                      let followUp = followup_question d in
                      if followUp = Some (lit ''[NEXT_QUESTION]'') then askNextInitialQuestion eresp s4
                      else
                        let s6 = addMessageToBox (lit ''AI'') followUp s4;
                            s7 = s6\<lparr>conversationHistory_ip :=
                                      conversationHistory_ip s6 @ [Entry Model followUp]\<rparr>
                        in enableUserInput s7
                  | Inl m \<Rightarrow> askNextInitialQuestion eresp (s4\<lparr>errorMessage_text := (lit ''Error: '') @ m\<rparr>))
        in s5\<lparr>loadingIndicator_display := (lit ''none'')\<rparr>)"

text \<open>The user types an answer or submits it (button or Enter key).\<close>

datatype event_ip =
    TypeAnswer jsstring
  | SubmitAnswer "followup_body fetch_result" "report_body fetch_result"

fun step_ip :: "event_ip \<Rightarrow> ipage \<Rightarrow> ipage" where
  "step_ip (TypeAnswer v) s = s\<lparr>userAnswer_value := v\<rparr>"
| "step_ip (SubmitAnswer f e) s = handleAnswerSubmission f e s"

fun run_ip :: "event_ip list \<Rightarrow> ipage \<Rightarrow> ipage" where
  "run_ip [] s = s"
| "run_ip (e # es) s = run_ip es (step_ip e s)"

definition fresh_ip :: "ipage \<Rightarrow> bool" where
  "fresh_ip s =
     (initialQuestions_ip s = [] \<and> conversationHistory_ip s = [] \<and> allUserAnswers_ip s = [] \<and>
      currentQuestionIndex_ip s = 0)"

fun askNextInitialQuestion_times :: "nat \<Rightarrow> report_body fetch_result \<Rightarrow> ipage \<Rightarrow> ipage" where
  "askNextInitialQuestion_times 0 resp s = s"
| "askNextInitialQuestion_times (Suc k) resp s =
     askNextInitialQuestion_times k resp (askNextInitialQuestion resp s)"

section \<open>Questions received from the backend\<close>





section \<open>States to evaluate on\<close>

text \<open>
  The pages as loaded: the closure variables as the scripts initialise them, the sections
  that the handlers reveal still hidden.
\<close>

definition blank_page :: page where
  "blank_page =
     \<lparr>initialQuestions = Some [], conversationHistory = [], allUserAnswers = [],
      currentQuestionIndex = 0, isRecording = False, currentTranscript = [],
      resumeFile = None, fileName = [], jobRoleInput = [],
      selectResumeBtn_disabled = False, jobRoleSection_hidden = True,
      uploadLoader_hidden = True, uploadError_text = [], uploadError_hidden = True,
      uploadSection_hidden = False, interviewContainer_hidden = True,
      startInterviewBtn_disabled = False, recordBtn_disabled = True,
      recordBtn_label = (lit ''Record Answer''), recordBtn_is_recording = False,
      questionText = [], responsesLog = [], reportResults_hidden = True,
      reportContent = NoReport, statusDot = (lit ''status-dot''), statusText = [],
      avatarStarted = False, requests = [], alerts = [], spoken = [], timers = 0\<rparr>"

definition blank_ipage :: ipage where
  "blank_ipage =
     \<lparr>initialQuestions_ip = [], conversationHistory_ip = [], allUserAnswers_ip = [],
      currentQuestionIndex_ip = 0, interviewBox = [], userAnswer_value = [],
      userAnswer_disabled = True, submitBtn_disabled = True, reportSection_hidden = True,
      userInputArea_hidden = False, loadingIndicator_display = (lit ''none''),
      errorMessage_text = [], reportContent_ip = NoReport, requests_ip = []\<rparr>"


section \<open>Predicates used in the statements and proofs\<close>

text \<open>The entries of a history that the user contributed.\<close>

definition user_entries :: "entry list \<Rightarrow> entry list" where
  "user_entries h = filter (\<lambda>e. entry_role e = User) h"

text \<open>The link between a history and the list of answers: the user texts are the answers.\<close>

definition answers_match :: "entry list \<Rightarrow> jsstring list \<Rightarrow> bool" where
  "answers_match h as = (texts_of User h = map Some as)"



text \<open>The index never runs past the end of the list of questions.\<close>

definition index_in_range :: "page \<Rightarrow> bool" where
  "index_in_range s =
     (case initialQuestions s of
        None \<Rightarrow> True
      | Some qs \<Rightarrow> currentQuestionIndex s \<le> length qs)"

text \<open>An event of the interview proper: any but the submission of the job-role form.\<close>

definition interview_event :: "event \<Rightarrow> bool" where
  "interview_event e = (case e of SubmitJobRole r \<Rightarrow> False | _ \<Rightarrow> True)"

text \<open>
  The questions asked so far are the elements of the list of questions before the index,
  in their order.
\<close>

definition asked_prefix :: "page \<Rightarrow> bool" where
  "asked_prefix s =
     (case initialQuestions s of
        None \<Rightarrow> False
      | Some qs \<Rightarrow>
          currentQuestionIndex s \<le> length qs
          \<and> texts_of Model (conversationHistory s) = map Some (take (currentQuestionIndex s) qs))"

section \<open>Helper facts\<close>

lemma lit_eq_iff [simp]: "lit a = lit b \<longleftrightarrow> a = b"
proof
  assume "lit a = lit b"
  then have "map char_of (lit a) = map char_of (lit b)" by simp
  then show "a = b" by (simp add: lit_def comp_def)
qed simp

lemma lit_Nil [simp]: "lit [] = []"
  by (simp add: lit_def)

lemma lit_eq_Nil [simp]: "lit a = [] \<longleftrightarrow> a = []" "[] = lit a \<longleftrightarrow> a = []"
  by (auto simp add: lit_def)

lemma lit_append [simp]: "lit a @ lit b = lit (a @ b)"
  by (simp add: lit_def)

lemma trim_blank: "trim (lit ''  '') = []"
  by (simp add: trim_def is_space_def lit_def)

lemma trim_dev: "trim (lit '' dev '') = lit ''dev''"
  by (simp add: trim_def is_space_def lit_def)

lemma trim_nbsp: "trim [0xA0] = []"
  by (simp add: trim_def is_space_def)

lemma trim_dev_nbsp: "trim (lit ''dev'' @ [0xA0]) = lit ''dev''"
  by (simp add: trim_def is_space_def lit_def)



subsection \<open>Handlers that leave requests and answers alone; asking questions\<close>

lemma requests_speak [simp]: "requests (speak t s) = requests s"
  by (simp add: speak_def updateStatus_def)

lemma allUserAnswers_speak [simp]: "allUserAnswers (speak t s) = allUserAnswers s"
  by (simp add: speak_def updateStatus_def)

lemma requests_endInterview: "requests (endInterview resp s) = requests s @ [PostEvaluate (allUserAnswers s)]"
  by (simp add: endInterview_def evaluate_outcome_def updateStatus_def Let_def split: sum.splits)

lemma requests_ip_endInterview_ip:
  "requests_ip (endInterview_ip resp t) = requests_ip t @ [PostEvaluate (allUserAnswers_ip t)]"
  by (simp add: endInterview_ip_def evaluate_outcome_def displayReport_def addMessageToBox_def Let_def split: sum.splits)

lemma askNextQuestion_lt:
  assumes "initialQuestions s = Some qs" and "currentQuestionIndex s < length qs"
  shows "\<exists>s'. askNextQuestion resp s = Inr s'
          \<and> currentQuestionIndex s' = currentQuestionIndex s + 1
          \<and> conversationHistory s' =
               conversationHistory s @ [Entry Model (Some (qs ! currentQuestionIndex s))]
          \<and> questionText s' = qs ! currentQuestionIndex s
          \<and> spoken s' = spoken s @ [qs ! currentQuestionIndex s]
          \<and> responsesLog s' = responsesLog s @ [((lit ''Improvyu''), qs ! currentQuestionIndex s)]
          \<and> initialQuestions s' = Some qs
          \<and> allUserAnswers s' = allUserAnswers s
          \<and> requests s' = requests s"
  using assms
  by (simp add: askNextQuestion_def speak_def updateStatus_def logToConversation_def Let_def)

lemma askNextQuestion_ge:
  assumes "initialQuestions s = Some qs" and "currentQuestionIndex s \<ge> length qs"
  shows "askNextQuestion resp s = Inr (endInterview resp s)"
  using assms by (simp add: askNextQuestion_def)

lemma askNextQuestion_lt_not_end:
  assumes "initialQuestions s = Some qs" and "currentQuestionIndex s < length qs"
  shows "askNextQuestion resp s \<noteq> Inr (endInterview resp s)"
proof
  assume eq: "askNextQuestion resp s = Inr (endInterview resp s)"
  from askNextQuestion_lt[OF assms, of resp] obtain s' where
    "askNextQuestion resp s = Inr s'" and "requests s' = requests s" by blast
  with eq have "requests (endInterview resp s) = requests s" by simp
  then show False by (simp add: requests_endInterview)
qed

lemma askNextInitialQuestion_lt:
  assumes "currentQuestionIndex_ip t < length (initialQuestions_ip t)"
  shows "currentQuestionIndex_ip (askNextInitialQuestion resp t) = currentQuestionIndex_ip t + 1
         \<and> conversationHistory_ip (askNextInitialQuestion resp t) =
             conversationHistory_ip t @
               [Entry Model (Some (initialQuestions_ip t ! currentQuestionIndex_ip t))]
         \<and> interviewBox (askNextInitialQuestion resp t) =
             interviewBox t @ [((lit ''AI''), Some (initialQuestions_ip t ! currentQuestionIndex_ip t))]
         \<and> initialQuestions_ip (askNextInitialQuestion resp t) = initialQuestions_ip t
         \<and> allUserAnswers_ip (askNextInitialQuestion resp t) = allUserAnswers_ip t
         \<and> requests_ip (askNextInitialQuestion resp t) = requests_ip t"
  using assms
  by (simp add: askNextInitialQuestion_def addMessageToBox_def enableUserInput_def Let_def)

lemma askNextInitialQuestion_ge:
  assumes "currentQuestionIndex_ip t \<ge> length (initialQuestions_ip t)"
  shows "askNextInitialQuestion resp t = endInterview_ip resp t"
  using assms by (simp add: askNextInitialQuestion_def)

lemma askNextInitialQuestion_lt_not_end:
  assumes "currentQuestionIndex_ip t < length (initialQuestions_ip t)"
  shows "askNextInitialQuestion resp t \<noteq> endInterview_ip resp t"
proof
  assume eq: "askNextInitialQuestion resp t = endInterview_ip resp t"
  from askNextInitialQuestion_lt[OF assms, of resp]
  have "requests_ip (askNextInitialQuestion resp t) = requests_ip t" by simp
  with eq show False by (simp add: requests_ip_endInterview_ip)
qed

lemma take_Suc_drop: "i < length xs \<Longrightarrow> take (Suc k) (drop i xs) = xs ! i # take k (drop (Suc i) xs)"
  by (simp add: Cons_nth_drop_Suc[symmetric])

lemma askNextQuestion_times_asks:
  assumes "initialQuestions s = Some qs" and "currentQuestionIndex s + k \<le> length qs"
  shows "\<exists>s'. askNextQuestion_times k resp s = Inr s'
          \<and> conversationHistory s' =
               conversationHistory s @
                 map (\<lambda>q. Entry Model (Some q)) (take k (drop (currentQuestionIndex s) qs))
          \<and> currentQuestionIndex s' = currentQuestionIndex s + k
          \<and> initialQuestions s' = Some qs
          \<and> requests s' = requests s"
  using assms
proof (induction k arbitrary: s)
  case 0
  then show ?case by simp
next
  case (Suc k)
  then have lt: "currentQuestionIndex s < length qs" by simp
  from askNextQuestion_lt[OF Suc.prems(1) lt, of resp] obtain s1 where
    s1: "askNextQuestion resp s = Inr s1"
        "currentQuestionIndex s1 = currentQuestionIndex s + 1"
        "conversationHistory s1 =
           conversationHistory s @ [Entry Model (Some (qs ! currentQuestionIndex s))]"
        "initialQuestions s1 = Some qs" "requests s1 = requests s"
    by blast
  have "currentQuestionIndex s1 + k \<le> length qs" using s1(2) Suc.prems(2) by simp
  from Suc.IH[OF s1(4) this] obtain s' where
    s': "askNextQuestion_times k resp s1 = Inr s'"
        "conversationHistory s' =
           conversationHistory s1 @
             map (\<lambda>q. Entry Model (Some q)) (take k (drop (currentQuestionIndex s1) qs))"
        "currentQuestionIndex s' = currentQuestionIndex s1 + k"
        "initialQuestions s' = Some qs" "requests s' = requests s1"
    by blast
  show ?case
    using s1 s' lt by (simp add: take_Suc_drop)
qed

lemma askNextInitialQuestion_times_asks:
  assumes "currentQuestionIndex_ip t + k \<le> length (initialQuestions_ip t)"
  shows "conversationHistory_ip (askNextInitialQuestion_times k resp t) =
           conversationHistory_ip t @
             map (\<lambda>q. Entry Model (Some q))
               (take k (drop (currentQuestionIndex_ip t) (initialQuestions_ip t)))
         \<and> currentQuestionIndex_ip (askNextInitialQuestion_times k resp t) =
             currentQuestionIndex_ip t + k
         \<and> initialQuestions_ip (askNextInitialQuestion_times k resp t) = initialQuestions_ip t
         \<and> requests_ip (askNextInitialQuestion_times k resp t) = requests_ip t"
  using assms
proof (induction k arbitrary: t)
  case 0
  then show ?case by simp
next
  case (Suc k)
  then have lt: "currentQuestionIndex_ip t < length (initialQuestions_ip t)" by simp
  note st = askNextInitialQuestion_lt[OF lt, of resp]
  have "currentQuestionIndex_ip (askNextInitialQuestion resp t) + k
          \<le> length (initialQuestions_ip (askNextInitialQuestion resp t))"
    using st Suc.prems by simp
  from Suc.IH[OF this] show ?case
    using st lt by (simp add: take_Suc_drop)
qed

subsection \<open>Answers and history\<close>

lemma answers_match_model: "answers_match h as \<Longrightarrow> answers_match (h @ [Entry Model t]) as"
  by (simp add: answers_match_def texts_of_def)

lemma answers_match_user: "answers_match h as \<Longrightarrow> answers_match (h @ [Entry User (Some a)]) (as @ [a])"
  by (simp add: answers_match_def texts_of_def)

lemma answers_match_user_model:
  "answers_match h as \<Longrightarrow> answers_match (h @ [Entry User (Some a), Entry Model t]) (as @ [a])"
  by (simp add: answers_match_def texts_of_def)

lemma endInterview_keeps:
  "conversationHistory (endInterview r s) = conversationHistory s"
  "allUserAnswers (endInterview r s) = allUserAnswers s"
  by (simp_all add: endInterview_def speak_def updateStatus_def Let_def split: sum.splits)

lemma askNextQuestion_match:
  assumes "answers_match (conversationHistory s) (allUserAnswers s)"
    and "askNextQuestion r s = Inr t"
  shows "answers_match (conversationHistory t) (allUserAnswers t)"
  using assms
  by (auto simp add: askNextQuestion_def endInterview_keeps speak_def updateStatus_def
        logToConversation_def Let_def answers_match_model
      split: option.splits if_splits)

lemma insert_followup_keeps:
  "conversationHistory (insert_followup r s) = conversationHistory s"
  "allUserAnswers (insert_followup r s) = allUserAnswers s"
  by (simp_all add: insert_followup_def split: sum.splits option.splits)

lemma recognition_onend_match:
  assumes "answers_match (conversationHistory s) (allUserAnswers s)"
  shows "answers_match (conversationHistory (recognition_onend r s))
           (allUserAnswers (recognition_onend r s))"
  using assms
  by (simp add: recognition_onend_def insert_followup_keeps updateStatus_def
        logToConversation_def Let_def answers_match_user)

lemma step_match:
  assumes "answers_match (conversationHistory s) (allUserAnswers s)"
  shows "answers_match (conversationHistory (step e s)) (allUserAnswers (step e s))"
proof (cases e)
  case (ChooseFile f)
  then show ?thesis using assms by (simp add: handleFileSelection_def split: option.splits)
next
  case (TypeJobRole v)
  then show ?thesis using assms by simp
next
  case (SubmitJobRole r)
  then show ?thesis using assms
    by (simp add: handleJobRoleSubmit_def Let_def split: sum.splits)
next
  case (StartClick r)
  show ?thesis
  proof (cases "startInterviewBtn_click r s")
    case (Inl err)
    then show ?thesis using assms StartClick by (simp add: keep_on_throw_def)
  next
    case (Inr t)
    then have "askNextQuestion r (s\<lparr>startInterviewBtn_disabled := True\<rparr>) = Inr t"
      by (simp add: startInterviewBtn_click_def)
    from askNextQuestion_match[OF _ this] assms Inr StartClick show ?thesis
      by (simp add: keep_on_throw_def)
  qed
next
  case (RecordClick b)
  then show ?thesis using assms by (simp add: toggleRecording_def)
next
  case RecognitionStart
  then show ?thesis using assms by (simp add: recognition_onstart_def updateStatus_def)
next
  case (RecognitionResult ts)
  then show ?thesis using assms by (simp add: recognition_onresult_def)
next
  case (RecognitionEnd r)
  then show ?thesis using assms by (simp add: recognition_onend_match)
next
  case (TimerFires r)
  show ?thesis
  proof (cases "timers s = 0")
    case True
    then show ?thesis using assms TimerFires by (simp add: keep_on_throw_def timer_fires_def)
  next
    case False
    show ?thesis
    proof (cases "askNextQuestion r (s\<lparr>timers := timers s - 1\<rparr>)")
      case (Inl err)
      then show ?thesis using assms False TimerFires
        by (simp add: keep_on_throw_def timer_fires_def)
    next
      case (Inr t)
      from askNextQuestion_match[OF _ this] assms Inr False TimerFires show ?thesis
        by (simp add: keep_on_throw_def timer_fires_def)
    qed
  qed
qed

lemma run_match:
  "answers_match (conversationHistory s) (allUserAnswers s) \<Longrightarrow>
   answers_match (conversationHistory (run evs s)) (allUserAnswers (run evs s))"
  by (induction evs arbitrary: s) (simp_all add: step_match)

lemma endInterview_ip_keeps:
  "conversationHistory_ip (endInterview_ip r s) = conversationHistory_ip s"
  "allUserAnswers_ip (endInterview_ip r s) = allUserAnswers_ip s"
  by (simp_all add: endInterview_ip_def displayReport_def addMessageToBox_def Let_def split: sum.splits)

lemma askNextInitialQuestion_match:
  assumes "answers_match (conversationHistory_ip s) (allUserAnswers_ip s)"
  shows "answers_match (conversationHistory_ip (askNextInitialQuestion r s))
           (allUserAnswers_ip (askNextInitialQuestion r s))"
  using assms
  by (simp add: askNextInitialQuestion_def endInterview_ip_keeps addMessageToBox_def
        enableUserInput_def Let_def answers_match_model)

lemma handleAnswerSubmission_match:
  assumes "answers_match (conversationHistory_ip s) (allUserAnswers_ip s)"
  shows "answers_match (conversationHistory_ip (handleAnswerSubmission f r s))
           (allUserAnswers_ip (handleAnswerSubmission f r s))"
proof (cases "trim (userAnswer_value s) = []")
  case True
  then show ?thesis using assms by (simp add: handleAnswerSubmission_def)
next
  case False
  let ?a = "trim (userAnswer_value s)"
  have m: "answers_match (conversationHistory_ip s @ [Entry User (Some ?a)]) (allUserAnswers_ip s @ [?a])"
    using assms by (rule answers_match_user)
  show ?thesis
    using False m
    by (auto simp add: handleAnswerSubmission_def Let_def addMessageToBox_def disableUserInput_def
          enableUserInput_def answers_match_user_model[OF assms]
        split: sum.splits intro!: askNextInitialQuestion_match)
qed

lemma run_ip_match:
  "answers_match (conversationHistory_ip s) (allUserAnswers_ip s) \<Longrightarrow>
   answers_match (conversationHistory_ip (run_ip evs s)) (allUserAnswers_ip (run_ip evs s))"
proof (induction evs arbitrary: s)
  case Nil
  then show ?case by simp
next
  case (Cons e evs)
  have "answers_match (conversationHistory_ip (step_ip e s)) (allUserAnswers_ip (step_ip e s))"
    using Cons.prems by (cases e) (simp_all add: handleAnswerSubmission_match)
  then show ?case using Cons.IH by simp
qed

lemma startInterview_match:
  "fresh_ip t \<Longrightarrow> answers_match (conversationHistory_ip (startInterview st r t)) (allUserAnswers_ip (startInterview st r t))"
  unfolding startInterview_def
  by (rule askNextInitialQuestion_match) (simp add: fresh_ip_def answers_match_def texts_of_def)

lemma answers_match_nth:
  assumes "answers_match h as"
  shows "length (filter (\<lambda>e. entry_role e = User) h) = length as
         \<and> (\<forall>i < length as. entry_text (filter (\<lambda>e. entry_role e = User) h ! i) = Some (as ! i))"
proof -
  from assms have eq: "map entry_text (filter (\<lambda>e. entry_role e = User) h) = map Some as"
    by (simp add: answers_match_def texts_of_def)
  then have len: "length (filter (\<lambda>e. entry_role e = User) h) = length as"
    by (metis length_map)
  moreover have "\<forall>i < length as. entry_text (filter (\<lambda>e. entry_role e = User) h ! i) = Some (as ! i)"
  proof (intro allI impI)
    fix i assume i: "i < length as"
    then have "map entry_text (filter (\<lambda>e. entry_role e = User) h) ! i = map Some as ! i"
      using eq by simp
    then show "entry_text (filter (\<lambda>e. entry_role e = User) h ! i) = Some (as ! i)"
      using i len by simp
  qed
  ultimately show ?thesis by simp
qed

subsection \<open>Inserting a follow-up\<close>

lemma splice_insert_in_range:
  "i \<le> length xs \<Longrightarrow> splice_insert i x xs = take i xs @ x # drop i xs"
  by (simp add: splice_insert_def Let_def min_def)

lemma splice_insert_nth:
  "i \<le> length xs \<Longrightarrow> splice_insert i x xs ! i = x"
  by (simp add: splice_insert_in_range nth_append)

lemma length_splice_insert: "length (splice_insert i x xs) = Suc (length xs)"
  by (simp add: splice_insert_def Let_def)

lemma recognition_onend_fields:
  "currentQuestionIndex (recognition_onend r s) = currentQuestionIndex s"
  "timers (recognition_onend r s) = timers s + 1"
  by (simp_all add: recognition_onend_def insert_followup_def updateStatus_def
        logToConversation_def Let_def split: sum.splits option.splits)

lemma initialQuestions_onend_insert:
  assumes "currentTranscript s \<noteq> []" and "initialQuestions s = Some qs"
    and "followup_question d = Some q" and "q \<noteq> []" and "q \<noteq> (lit ''[NEXT_QUESTION]'')"
  shows "initialQuestions (recognition_onend (Response True d) s) =
           Some (splice_insert (currentQuestionIndex s) q qs)"
  using assms
  by (simp add: recognition_onend_def insert_followup_def followup_outcome_def updateStatus_def
        logToConversation_def Let_def)

lemma initialQuestions_onend_same:
  assumes "r = Rejected m \<or> r = Response False d
           \<or> (r = Response True d \<and>
               (followup_question d = None \<or> followup_question d = Some []
                \<or> followup_question d = Some (lit ''[NEXT_QUESTION]'')))"
  shows "initialQuestions (recognition_onend r s) = initialQuestions s"
  using assms
  by (auto simp add: recognition_onend_def insert_followup_def followup_outcome_def updateStatus_def
        logToConversation_def Let_def)

lemma timer_after_onend:
  "timer_fires e (recognition_onend r s) =
     askNextQuestion e ((recognition_onend r s)\<lparr>timers := timers s\<rparr>)"
  by (simp add: timer_fires_def recognition_onend_fields)

lemma askNextQuestion_asks:
  assumes "initialQuestions s = Some qs" and "currentQuestionIndex s < length qs"
  shows "\<exists>s'. askNextQuestion resp s = Inr s'
          \<and> conversationHistory s' =
               conversationHistory s @ [Entry Model (Some (qs ! currentQuestionIndex s))]
          \<and> questionText s' = qs ! currentQuestionIndex s
          \<and> spoken s' = spoken s @ [qs ! currentQuestionIndex s]"
  using assms
  by (simp add: askNextQuestion_def speak_def updateStatus_def logToConversation_def Let_def)

subsection \<open>Where questions come from\<close>

lemma texts_of_Nil [simp]: "texts_of r [] = []"
  by (simp add: texts_of_def)

lemma texts_of_append [simp]: "texts_of r (h @ h') = texts_of r h @ texts_of r h'"
  by (simp add: texts_of_def)

lemma texts_of_Cons [simp]:
  "texts_of r (Entry r' t # h) = (if r' = r then t # texts_of r h else texts_of r h)"
  by (simp add: texts_of_def)




















subsection \<open>The index stays in range\<close>

lemma endInterview_index:
  "currentQuestionIndex (endInterview r s) = currentQuestionIndex s"
  "initialQuestions (endInterview r s) = initialQuestions s"
  by (simp_all add: endInterview_def speak_def updateStatus_def Let_def split: sum.splits)

lemma askNextQuestion_index_in_range:
  assumes "index_in_range s" and "askNextQuestion r s = Inr t"
  shows "index_in_range t"
  using assms
  by (auto simp add: askNextQuestion_def index_in_range_def endInterview_index speak_def
        updateStatus_def logToConversation_def Let_def split: option.splits if_splits)

lemma insert_followup_index_in_range:
  "index_in_range s \<Longrightarrow> index_in_range (insert_followup r s)"
  by (auto simp add: insert_followup_def index_in_range_def length_splice_insert
        split: sum.splits option.splits)

lemma recognition_onend_index_in_range:
  assumes "index_in_range s"
  shows "index_in_range (recognition_onend r s)"
proof -
  have "index_in_range (s\<lparr>timers := n\<rparr>)" for n
    using assms by (simp add: index_in_range_def split: option.splits)
  show ?thesis
  proof (cases "currentTranscript s = []")
    case True
    then show ?thesis using assms
      by (simp add: recognition_onend_def index_in_range_def updateStatus_def Let_def split: option.splits)
  next
    case False
    let ?s7 = "s\<lparr>isRecording := False, statusDot := (lit ''status-dot status-status-processing''),
              statusText := (lit ''Processing...''), recordBtn_label := (lit ''Record Answer''),
              recordBtn_is_recording := False,
              allUserAnswers := allUserAnswers s @ [currentTranscript s],
              conversationHistory := conversationHistory s @ [Entry User (Some (currentTranscript s))],
              responsesLog := responsesLog s @ [((lit ''You''), currentTranscript s)],
              requests := requests s @ [PostFollowUp (conversationHistory s @ [Entry User (Some (currentTranscript s))])]\<rparr>"
    have eq: "recognition_onend r s = (insert_followup r ?s7)\<lparr>timers := timers (insert_followup r ?s7) + 1\<rparr>"
      using False by (simp add: recognition_onend_def updateStatus_def logToConversation_def Let_def)
    have "index_in_range ?s7" using assms by (simp add: index_in_range_def split: option.splits)
    from insert_followup_index_in_range[OF this, of r]
    show ?thesis by (simp add: eq index_in_range_def split: option.splits)
  qed
qed

lemma step_index_in_range:
  assumes "index_in_range s" and "\<And>r. e \<noteq> SubmitJobRole r"
  shows "index_in_range (step e s)"
proof (cases e)
  case (ChooseFile f)
  then show ?thesis using assms
    by (simp add: handleFileSelection_def index_in_range_def split: option.splits)
next
  case (TypeJobRole v)
  then show ?thesis using assms by (simp add: index_in_range_def split: option.splits)
next
  case (SubmitJobRole r)
  then show ?thesis using assms(2) by simp
next
  case (StartClick r)
  have a: "index_in_range (s\<lparr>startInterviewBtn_disabled := True\<rparr>)"
    using assms by (simp add: index_in_range_def split: option.splits)
  show ?thesis
  proof (cases "askNextQuestion r (s\<lparr>startInterviewBtn_disabled := True\<rparr>)")
    case (Inl err)
    then show ?thesis using a StartClick
      by (simp add: keep_on_throw_def startInterviewBtn_click_def)
  next
    case (Inr t)
    from askNextQuestion_index_in_range[OF a this] Inr StartClick show ?thesis
      by (simp add: keep_on_throw_def startInterviewBtn_click_def)
  qed
next
  case (RecordClick b)
  then show ?thesis using assms by (simp add: toggleRecording_def index_in_range_def split: option.splits)
next
  case RecognitionStart
  then show ?thesis using assms
    by (simp add: recognition_onstart_def updateStatus_def index_in_range_def split: option.splits)
next
  case (RecognitionResult ts)
  then show ?thesis using assms by (simp add: recognition_onresult_def index_in_range_def split: option.splits)
next
  case (RecognitionEnd r)
  then show ?thesis using assms by (simp add: recognition_onend_index_in_range)
next
  case (TimerFires r)
  have a: "index_in_range (s\<lparr>timers := timers s - 1\<rparr>)"
    using assms by (simp add: index_in_range_def split: option.splits)
  show ?thesis
  proof (cases "timers s = 0")
    case True
    then show ?thesis using assms TimerFires by (simp add: keep_on_throw_def timer_fires_def)
  next
    case False
    show ?thesis
    proof (cases "askNextQuestion r (s\<lparr>timers := timers s - 1\<rparr>)")
      case (Inl err)
      then show ?thesis using a False TimerFires
        by (simp add: keep_on_throw_def timer_fires_def)
    next
      case (Inr t)
      from askNextQuestion_index_in_range[OF a this] Inr False TimerFires show ?thesis
        by (simp add: keep_on_throw_def timer_fires_def)
    qed
  qed
qed

lemma handleJobRoleSubmit_index_in_range:
  "currentQuestionIndex s = 0 \<Longrightarrow> index_in_range (handleJobRoleSubmit r s)"
  by (simp add: handleJobRoleSubmit_def index_in_range_def Let_def split: sum.splits option.splits)

subsection \<open>The questions asked are a prefix of the list\<close>

lemma asked_prefixI:
  "initialQuestions s = Some qs \<Longrightarrow> currentQuestionIndex s \<le> length qs \<Longrightarrow>
   texts_of Model (conversationHistory s) = map Some (take (currentQuestionIndex s) qs) \<Longrightarrow>
   asked_prefix s"
  by (simp add: asked_prefix_def)

lemma asked_prefixE:
  assumes "asked_prefix s"
  obtains qs where "initialQuestions s = Some qs" "currentQuestionIndex s \<le> length qs"
    "texts_of Model (conversationHistory s) = map Some (take (currentQuestionIndex s) qs)"
  using assms by (auto simp add: asked_prefix_def split: option.splits)

lemma asked_prefix_cong:
  assumes "asked_prefix s" and "initialQuestions t = initialQuestions s"
    and "currentQuestionIndex t = currentQuestionIndex s"
    and "texts_of Model (conversationHistory t) = texts_of Model (conversationHistory s)"
  shows "asked_prefix t"
  using assms by (simp add: asked_prefix_def split: option.splits)

lemma endInterview_unchanged:
  "initialQuestions (endInterview r s) = initialQuestions s"
  "currentQuestionIndex (endInterview r s) = currentQuestionIndex s"
  "conversationHistory (endInterview r s) = conversationHistory s"
  by (simp_all add: endInterview_def speak_def updateStatus_def Let_def split: sum.splits)

lemma askNextQuestion_asked_prefix:
  assumes "asked_prefix s" and "askNextQuestion r s = Inr t"
  shows "asked_prefix t"
proof -
  from assms(1) obtain qs where
    qs: "initialQuestions s = Some qs" "currentQuestionIndex s \<le> length qs"
        "texts_of Model (conversationHistory s) = map Some (take (currentQuestionIndex s) qs)"
    by (rule asked_prefixE)
  show ?thesis
  proof (cases "currentQuestionIndex s < length qs")
    case True
    from askNextQuestion_lt[OF qs(1) True, of r] assms(2)
    have t: "currentQuestionIndex t = currentQuestionIndex s + 1"
            "conversationHistory t =
               conversationHistory s @ [Entry Model (Some (qs ! currentQuestionIndex s))]"
            "initialQuestions t = Some qs"
      by auto
    show ?thesis
    proof (rule asked_prefixI[OF t(3)])
      show "currentQuestionIndex t \<le> length qs" using t(1) True by simp
      show "texts_of Model (conversationHistory t) = map Some (take (currentQuestionIndex t) qs)"
        using t(1,2) qs(3) True by (simp add: take_Suc_conv_app_nth)
    qed
  next
    case False
    then have "t = endInterview r s"
      using assms(2) qs(1) by (simp add: askNextQuestion_def)
    then show ?thesis
      using asked_prefix_cong[OF assms(1), of "endInterview r s"]
      by (simp add: endInterview_unchanged)
  qed
qed

lemma insert_followup_asked_prefix:
  assumes "asked_prefix s"
  shows "asked_prefix (insert_followup r s)"
proof -
  from assms obtain qs where
    qs: "initialQuestions s = Some qs" "currentQuestionIndex s \<le> length qs"
        "texts_of Model (conversationHistory s) = map Some (take (currentQuestionIndex s) qs)"
    by (rule asked_prefixE)
  have "take (currentQuestionIndex s) (splice_insert (currentQuestionIndex s) q qs)
          = take (currentQuestionIndex s) qs" for q
    using qs(2) by (simp add: splice_insert_in_range)
  then show ?thesis
    using qs
    by (auto simp add: insert_followup_def asked_prefix_def length_splice_insert
          split: sum.splits option.splits)
qed

lemma recognition_onend_asked_prefix:
  assumes "asked_prefix s"
  shows "asked_prefix (recognition_onend r s)"
proof (cases "currentTranscript s = []")
  case True
  show ?thesis
    by (rule asked_prefix_cong[OF assms])
       (simp_all add: True recognition_onend_def updateStatus_def Let_def)
next
  case False
  let ?s7 = "s\<lparr>isRecording := False, statusDot := (lit ''status-dot status-status-processing''),
            statusText := (lit ''Processing...''), recordBtn_label := (lit ''Record Answer''),
            recordBtn_is_recording := False,
            allUserAnswers := allUserAnswers s @ [currentTranscript s],
            conversationHistory := conversationHistory s @ [Entry User (Some (currentTranscript s))],
            responsesLog := responsesLog s @ [((lit ''You''), currentTranscript s)],
            requests := requests s @ [PostFollowUp (conversationHistory s @ [Entry User (Some (currentTranscript s))])]\<rparr>"
  have eq: "recognition_onend r s = (insert_followup r ?s7)\<lparr>timers := timers (insert_followup r ?s7) + 1\<rparr>"
    using False by (simp add: recognition_onend_def updateStatus_def logToConversation_def Let_def)
  have "asked_prefix ?s7"
    by (rule asked_prefix_cong[OF assms]) simp_all
  then have "asked_prefix (insert_followup r ?s7)" by (rule insert_followup_asked_prefix)
  then show ?thesis
    unfolding eq by (rule asked_prefix_cong) simp_all
qed

lemma step_asked_prefix:
  assumes "asked_prefix s" and "interview_event e"
  shows "asked_prefix (step e s)"
proof (cases e)
  case (ChooseFile f)
  show ?thesis
    by (rule asked_prefix_cong[OF assms(1)])
       (simp_all add: ChooseFile handleFileSelection_def split: option.splits)
next
  case (TypeJobRole v)
  show ?thesis by (rule asked_prefix_cong[OF assms(1)]) (simp_all add: TypeJobRole)
next
  case (SubmitJobRole r)
  then show ?thesis using assms(2) by (simp add: interview_event_def)
next
  case (StartClick r)
  have a: "asked_prefix (s\<lparr>startInterviewBtn_disabled := True\<rparr>)"
    by (rule asked_prefix_cong[OF assms(1)]) simp_all
  show ?thesis
  proof (cases "askNextQuestion r (s\<lparr>startInterviewBtn_disabled := True\<rparr>)")
    case (Inl err)
    then show ?thesis using a StartClick
      by (simp add: keep_on_throw_def startInterviewBtn_click_def)
  next
    case (Inr t)
    from askNextQuestion_asked_prefix[OF a this] Inr StartClick show ?thesis
      by (simp add: keep_on_throw_def startInterviewBtn_click_def)
  qed
next
  case (RecordClick b)
  show ?thesis
    by (rule asked_prefix_cong[OF assms(1)]) (simp_all add: RecordClick toggleRecording_def)
next
  case RecognitionStart
  show ?thesis
    by (rule asked_prefix_cong[OF assms(1)])
       (simp_all add: RecognitionStart recognition_onstart_def updateStatus_def)
next
  case (RecognitionResult ts)
  show ?thesis
    by (rule asked_prefix_cong[OF assms(1)])
       (simp_all add: RecognitionResult recognition_onresult_def)
next
  case (RecognitionEnd r)
  then show ?thesis using assms(1) by (simp add: recognition_onend_asked_prefix)
next
  case (TimerFires r)
  have a: "asked_prefix (s\<lparr>timers := timers s - 1\<rparr>)"
    by (rule asked_prefix_cong[OF assms(1)]) simp_all
  show ?thesis
  proof (cases "timers s = 0")
    case True
    then show ?thesis using assms(1) TimerFires by (simp add: keep_on_throw_def timer_fires_def)
  next
    case False
    show ?thesis
    proof (cases "askNextQuestion r (s\<lparr>timers := timers s - 1\<rparr>)")
      case (Inl err)
      then show ?thesis using a False TimerFires
        by (simp add: keep_on_throw_def timer_fires_def)
    next
      case (Inr t)
      from askNextQuestion_asked_prefix[OF a this] Inr False TimerFires show ?thesis
        by (simp add: keep_on_throw_def timer_fires_def)
    qed
  qed
qed

lemma run_asked_prefix:
  "asked_prefix s \<Longrightarrow> list_all interview_event evs \<Longrightarrow> asked_prefix (run evs s)"
  by (induction evs arbitrary: s) (simp_all add: step_asked_prefix)

lemma askNextInitialQuestion_list_index:
  "initialQuestions_ip (askNextInitialQuestion r t) = initialQuestions_ip t
   \<and> currentQuestionIndex_ip t \<le> currentQuestionIndex_ip (askNextInitialQuestion r t)"
  by (simp add: askNextInitialQuestion_def endInterview_ip_def displayReport_def addMessageToBox_def
        enableUserInput_def Let_def split: sum.splits)

lemma handleAnswerSubmission_list_index:
  "initialQuestions_ip (handleAnswerSubmission f r t) = initialQuestions_ip t
   \<and> currentQuestionIndex_ip t \<le> currentQuestionIndex_ip (handleAnswerSubmission f r t)"
proof (cases "trim (userAnswer_value t) = []")
  case True
  then show ?thesis by (simp add: handleAnswerSubmission_def)
next
  case False
  let ?a = "trim (userAnswer_value t)"
  let ?s4 = "t\<lparr>userAnswer_disabled := True, submitBtn_disabled := True,
               interviewBox := interviewBox t @ [((lit ''You''), Some ?a)],
               allUserAnswers_ip := allUserAnswers_ip t @ [?a],
               conversationHistory_ip := conversationHistory_ip t @ [Entry User (Some ?a)],
               loadingIndicator_display := (lit ''block''),
               requests_ip := requests_ip t @ [PostFollowUp (conversationHistory_ip t @ [Entry User (Some ?a)])]\<rparr>"
  note a1 = askNextInitialQuestion_list_index[of r ?s4]
  note a2 = askNextInitialQuestion_list_index[of r "?s4\<lparr>errorMessage_text := m\<rparr>" for m]
  show ?thesis
    using False a1 a2
    by (simp add: handleAnswerSubmission_def Let_def addMessageToBox_def disableUserInput_def
          enableUserInput_def split: sum.splits)
qed

lemma run_ip_list_index:
  "initialQuestions_ip (run_ip es t) = initialQuestions_ip t
   \<and> currentQuestionIndex_ip t \<le> currentQuestionIndex_ip (run_ip es t)"
proof (induction es arbitrary: t)
  case Nil
  then show ?case by simp
next
  case (Cons e es)
  have "initialQuestions_ip (step_ip e t) = initialQuestions_ip t
        \<and> currentQuestionIndex_ip t \<le> currentQuestionIndex_ip (step_ip e t)"
    by (cases e) (simp_all add: handleAnswerSubmission_list_index)
  with Cons.IH[of "step_ip e t"] show ?case by simp
qed

subsection \<open>The avatar\<close>

lemma byte_sum_le: "byte_sum bs \<le> 255 * length bs"
proof (induction bs)
  case Nil
  then show ?case by (simp add: byte_sum_def)
next
  case (Cons b bs)
  have "unat b < 2 ^ LENGTH(8)" by (rule unsigned_less)
  then have "unat b \<le> 255" by simp
  with Cons show ?case by (simp add: byte_sum_def)
qed

lemma foldl_exact:
  assumes "exact_upto fl B"
  shows "a + sum_list ns \<le> B \<Longrightarrow>
         foldl (\<lambda>a b. fl (a + b)) (real a) (map real ns) = real (a + sum_list ns)"
proof (induction ns arbitrary: a)
  case Nil
  then show ?case by simp
next
  case (Cons n ns)
  have "a + n \<le> B" using Cons.prems by simp
  then have "fl (real (a + n)) = real (a + n)"
    using assms unfolding exact_upto_def by blast
  then have step: "fl (real a + real n) = real (a + n)" by (simp only: of_nat_add)
  have "(a + n) + sum_list ns \<le> B" using Cons.prems by simp
  from Cons.IH[OF this] have "foldl (\<lambda>a b. fl (a + b)) (real (a + n)) (map real ns)
      = real (a + n + sum_list ns)" .
  then show ?case by (simp add: step add.assoc del: of_nat_add)
qed

lemma reduce_add_exact:
  assumes "exact_upto fl (255 * length bs)" and "bs \<noteq> []"
  shows "reduce_add fl (byte_values bs) = Inr (real (byte_sum bs))"
proof -
  from assms(2) obtain b cs where bs: "bs = b # cs" by (cases bs) auto
  have "unat b + sum_list (map unat cs) \<le> 255 * length bs"
    using byte_sum_le[of bs] by (simp add: bs byte_sum_def)
  from foldl_exact[OF assms(1) this]
  have "foldl (\<lambda>a b. fl (a + b)) (real (unat b)) (map real (map unat cs))
          = real (unat b + sum_list (map unat cs))" .
  then show ?thesis
    unfolding reduce_add_def bs byte_values_def byte_sum_def by simp
qed

lemma const_nonneg:
  assumes "mono fl" and "fl 0 = 0" and "0 \<le> c"
  shows "0 \<le> fl c"
  using monoD[OF assms(1) assms(3)] assms(2) by simp

lemma targetScale_mono:
  assumes "mono fl" and "fl 0 = 0" and "a \<le> b"
  shows "targetScale_of fl a \<le> targetScale_of fl b"
proof -
  have c: "0 \<le> fl (7 / 10)" by (rule const_nonneg[OF assms(1,2)]) simp
  have "fl (a / 128) \<le> fl (b / 128)"
    using assms(3) by (intro monoD[OF assms(1)]) (simp add: divide_right_mono)
  then have "fl (a / 128) * fl (7 / 10) \<le> fl (b / 128) * fl (7 / 10)"
    using c by (rule mult_right_mono)
  then have "fl (fl (a / 128) * fl (7 / 10)) \<le> fl (fl (b / 128) * fl (7 / 10))"
    by (rule monoD[OF assms(1)])
  then show ?thesis
    unfolding targetScale_of_def by (intro monoD[OF assms(1)]) simp
qed

lemma smooth_mono:
  assumes "mono fl" and "fl 0 = 0" and "a \<le> b"
  shows "smooth fl a sv \<le> smooth fl b sv"
proof -
  have c: "0 \<le> fl (2 / 10)" by (rule const_nonneg[OF assms(1,2)]) simp
  have "fl (a - sv) \<le> fl (b - sv)"
    using assms(3) by (intro monoD[OF assms(1)]) simp
  then have "fl (a - sv) * fl (2 / 10) \<le> fl (b - sv) * fl (2 / 10)"
    using c by (rule mult_right_mono)
  then have "fl (fl (a - sv) * fl (2 / 10)) \<le> fl (fl (b - sv) * fl (2 / 10))"
    by (rule monoD[OF assms(1)])
  then show ?thesis
    unfolding smooth_def by (intro monoD[OF assms(1)]) simp
qed

lemma animateAvatar_active:
  assumes "exact_upto fl (255 * length bs)" and "bs \<noteq> []" and "analyser s" and "avatar s"
  shows "animateAvatar fl bs s =
           Inr (s\<lparr>smoothedVolume := frame_volume fl bs (smoothedVolume s),
                  avatar_scale := (frame_volume fl bs (smoothedVolume s),
                                   frame_volume fl bs (smoothedVolume s),
                                   frame_volume fl bs (smoothedVolume s)),
                  frames_requested := frames_requested s + 1,
                  rendered := rendered s + 1\<rparr>)"
  using assms
  by (simp add: animateAvatar_def reduce_add_exact frame_volume_def Let_def)

lemma frame_volume_mono:
  assumes "mono fl" and "fl 0 = 0" and "length bs = length cs" and "byte_sum bs \<le> byte_sum cs"
  shows "frame_volume fl bs sv \<le> frame_volume fl cs sv"
proof -
  have "real (byte_sum bs) / real (length bs) \<le> real (byte_sum cs) / real (length cs)"
    using assms(3,4) by (simp add: divide_right_mono)
  then have "fl (real (byte_sum bs) / real (length bs)) \<le> fl (real (byte_sum cs) / real (length cs))"
    by (rule monoD[OF assms(1)])
  then show ?thesis
    unfolding frame_volume_def
    by (intro smooth_mono[OF assms(1,2)] targetScale_mono[OF assms(1,2)])
qed

lemma exact_id: "exact_upto (\<lambda>x. x) B" by (simp add: exact_upto_def)
lemma mono_id: "mono (\<lambda>x::real. x)" by (simp add: mono_def)

lemma animateAvatar_keeps:
  "animateAvatar fl bs s = Inr t \<Longrightarrow> avatar t = avatar s \<and> analyser t = analyser s"
  by (auto simp add: animateAvatar_def Let_def split: if_splits sum.splits)

lemma initAvatar_sets_avatar: "initAvatar fl bs s = Inr t \<Longrightarrow> avatar t"
  using animateAvatar_keeps[of fl bs "s\<lparr>avatar := True\<rparr>" t]
  by (simp add: initAvatar_def)

lemma byte_sum_replicate: "byte_sum (replicate n b) = n * unat b"
  by (simp add: byte_sum_def sum_list_replicate)

section \<open>The question loop\<close>

text \<open>
  C1. A call of \<open>askNextQuestion\<close> with \<open>currentQuestionIndex < initialQuestions.length\<close>
  returns, asks the question at the current index (it becomes the question text and is
  spoken), adds one to the index, appends that question to \<open>conversationHistory\<close> with
  role model, and is not a call of \<open>endInterview\<close>; a call with
  \<open>currentQuestionIndex >= initialQuestions.length\<close> is a call of \<open>endInterview\<close>. So
  \<open>k\<close> calls in a row from index \<open>i\<close> ask the elements \<open>i, ..., i + k - 1\<close> of the list, each
  once and in order, sending nothing. \<open>askNextInitialQuestion\<close> of the text interview does
  the same. With the other handlers running in between, the questions asked so far in the
  voice interview are at every moment the elements of \<open>initialQuestions\<close> before the
  index, follow-ups included; in the text interview the list never changes and the index
  never goes back.
\<close>

theorem askNextQuestion_loop:
  "(initialQuestions s = Some qs \<and> currentQuestionIndex s < length qs \<longrightarrow>
      (\<exists>s'. askNextQuestion r s = Inr s'
         \<and> currentQuestionIndex s' = currentQuestionIndex s + 1
         \<and> conversationHistory s' =
              conversationHistory s @ [Entry Model (Some (qs ! currentQuestionIndex s))]
         \<and> questionText s' = qs ! currentQuestionIndex s
         \<and> spoken s' = spoken s @ [qs ! currentQuestionIndex s]
         \<and> initialQuestions s' = Some qs
         \<and> requests s' = requests s)
      \<and> askNextQuestion r s \<noteq> Inr (endInterview r s))
   \<and> (initialQuestions u = Some ps \<and> length ps \<le> currentQuestionIndex u \<longrightarrow>
        askNextQuestion r u = Inr (endInterview r u))
   \<and> (initialQuestions v = Some ws \<and> currentQuestionIndex v + k \<le> length ws \<longrightarrow>
        (\<exists>v'. askNextQuestion_times k r v = Inr v'
           \<and> conversationHistory v' =
                conversationHistory v @
                  map (\<lambda>q. Entry Model (Some q)) (take k (drop (currentQuestionIndex v) ws))
           \<and> currentQuestionIndex v' = currentQuestionIndex v + k
           \<and> initialQuestions v' = Some ws
           \<and> requests v' = requests v))
   \<and> (currentQuestionIndex_ip t < length (initialQuestions_ip t) \<longrightarrow>
        currentQuestionIndex_ip (askNextInitialQuestion r t) = currentQuestionIndex_ip t + 1
        \<and> conversationHistory_ip (askNextInitialQuestion r t) =
             conversationHistory_ip t @
               [Entry Model (Some (initialQuestions_ip t ! currentQuestionIndex_ip t))]
        \<and> interviewBox (askNextInitialQuestion r t) =
             interviewBox t @ [((lit ''AI''), Some (initialQuestions_ip t ! currentQuestionIndex_ip t))]
        \<and> initialQuestions_ip (askNextInitialQuestion r t) = initialQuestions_ip t
        \<and> requests_ip (askNextInitialQuestion r t) = requests_ip t
        \<and> askNextInitialQuestion r t \<noteq> endInterview_ip r t)
   \<and> (length (initialQuestions_ip x) \<le> currentQuestionIndex_ip x \<longrightarrow>
        askNextInitialQuestion r x = endInterview_ip r x)
   \<and> (currentQuestionIndex_ip y + n \<le> length (initialQuestions_ip y) \<longrightarrow>
        conversationHistory_ip (askNextInitialQuestion_times n r y) =
          conversationHistory_ip y @
            map (\<lambda>q. Entry Model (Some q))
              (take n (drop (currentQuestionIndex_ip y) (initialQuestions_ip y)))
        \<and> currentQuestionIndex_ip (askNextInitialQuestion_times n r y) =
             currentQuestionIndex_ip y + n
        \<and> initialQuestions_ip (askNextInitialQuestion_times n r y) = initialQuestions_ip y
        \<and> requests_ip (askNextInitialQuestion_times n r y) = requests_ip y)
   \<and> (initialQuestions z = Some zs \<and> conversationHistory z = [] \<and> currentQuestionIndex z = 0
       \<and> list_all interview_event evs \<longrightarrow>
        (\<exists>qs'. initialQuestions (run evs z) = Some qs'
           \<and> currentQuestionIndex (run evs z) \<le> length qs'
           \<and> texts_of Model (conversationHistory (run evs z))
               = map Some (take (currentQuestionIndex (run evs z)) qs')))
   \<and> initialQuestions_ip (run_ip es w) = initialQuestions_ip w
   \<and> currentQuestionIndex_ip w \<le> currentQuestionIndex_ip (run_ip es w)"
proof (intro conjI impI)
  assume h: "initialQuestions s = Some qs \<and> currentQuestionIndex s < length qs"
  from askNextQuestion_lt[of s qs r] h
  show "\<exists>s'. askNextQuestion r s = Inr s'
         \<and> currentQuestionIndex s' = currentQuestionIndex s + 1
         \<and> conversationHistory s' =
              conversationHistory s @ [Entry Model (Some (qs ! currentQuestionIndex s))]
         \<and> questionText s' = qs ! currentQuestionIndex s
         \<and> spoken s' = spoken s @ [qs ! currentQuestionIndex s]
         \<and> initialQuestions s' = Some qs
         \<and> requests s' = requests s"
    by blast
  from askNextQuestion_lt_not_end[of s qs r] h
  show "askNextQuestion r s \<noteq> Inr (endInterview r s)" by simp
next
  assume "initialQuestions u = Some ps \<and> length ps \<le> currentQuestionIndex u"
  then show "askNextQuestion r u = Inr (endInterview r u)"
    by (simp add: askNextQuestion_ge)
next
  assume "initialQuestions v = Some ws \<and> currentQuestionIndex v + k \<le> length ws"
  then show "\<exists>v'. askNextQuestion_times k r v = Inr v'
           \<and> conversationHistory v' =
                conversationHistory v @
                  map (\<lambda>q. Entry Model (Some q)) (take k (drop (currentQuestionIndex v) ws))
           \<and> currentQuestionIndex v' = currentQuestionIndex v + k
           \<and> initialQuestions v' = Some ws
           \<and> requests v' = requests v"
    by (simp add: askNextQuestion_times_asks)
next
  assume h: "currentQuestionIndex_ip t < length (initialQuestions_ip t)"
  note st = askNextInitialQuestion_lt[OF h, of r]
  show "currentQuestionIndex_ip (askNextInitialQuestion r t) = currentQuestionIndex_ip t + 1"
    using st by simp
  show "conversationHistory_ip (askNextInitialQuestion r t) =
             conversationHistory_ip t @
               [Entry Model (Some (initialQuestions_ip t ! currentQuestionIndex_ip t))]"
    using st by simp
  show "interviewBox (askNextInitialQuestion r t) =
             interviewBox t @ [((lit ''AI''), Some (initialQuestions_ip t ! currentQuestionIndex_ip t))]"
    using st by simp
  show "initialQuestions_ip (askNextInitialQuestion r t) = initialQuestions_ip t"
    using st by simp
  show "requests_ip (askNextInitialQuestion r t) = requests_ip t"
    using st by simp
  show "askNextInitialQuestion r t \<noteq> endInterview_ip r t"
    using h by (rule askNextInitialQuestion_lt_not_end)
next
  assume "length (initialQuestions_ip x) \<le> currentQuestionIndex_ip x"
  then show "askNextInitialQuestion r x = endInterview_ip r x"
    by (rule askNextInitialQuestion_ge)
next
  assume h: "currentQuestionIndex_ip y + n \<le> length (initialQuestions_ip y)"
  note st = askNextInitialQuestion_times_asks[OF h, of r]
  show "conversationHistory_ip (askNextInitialQuestion_times n r y) =
          conversationHistory_ip y @
            map (\<lambda>q. Entry Model (Some q))
              (take n (drop (currentQuestionIndex_ip y) (initialQuestions_ip y)))"
    using st by simp
  show "currentQuestionIndex_ip (askNextInitialQuestion_times n r y) =
             currentQuestionIndex_ip y + n"
    using st by simp
  show "initialQuestions_ip (askNextInitialQuestion_times n r y) = initialQuestions_ip y"
    using st by simp
  show "requests_ip (askNextInitialQuestion_times n r y) = requests_ip y"
    using st by simp
next
  assume h: "initialQuestions z = Some zs \<and> conversationHistory z = [] \<and> currentQuestionIndex z = 0
       \<and> list_all interview_event evs"
  then have "asked_prefix z" by (simp add: asked_prefix_def texts_of_def)
  with h have "asked_prefix (run evs z)" by (simp add: run_asked_prefix)
  then show "\<exists>qs'. initialQuestions (run evs z) = Some qs'
           \<and> currentQuestionIndex (run evs z) \<le> length qs'
           \<and> texts_of Model (conversationHistory (run evs z))
               = map Some (take (currentQuestionIndex (run evs z)) qs')"
    by (rule asked_prefixE) blast
next
  show "initialQuestions_ip (run_ip es w) = initialQuestions_ip w"
    by (simp add: run_ip_list_index)
  show "currentQuestionIndex_ip w \<le> currentQuestionIndex_ip (run_ip es w)"
    by (simp add: run_ip_list_index)
qed

theorem askNextQuestion_loop_witness:
  "initialQuestions (blank_page\<lparr>initialQuestions := Some [(lit ''Q1''), (lit ''Q2'')]\<rparr>) = Some [(lit ''Q1''), (lit ''Q2'')]
   \<and> currentQuestionIndex (blank_page\<lparr>initialQuestions := Some [(lit ''Q1''), (lit ''Q2'')]\<rparr>)
       < length [(lit ''Q1''), (lit ''Q2'')]
   \<and> askNextQuestion (Rejected (lit ''offline'')) (blank_page\<lparr>initialQuestions := Some [(lit ''Q1''), (lit ''Q2'')]\<rparr>)
       \<noteq> Inr (endInterview (Rejected (lit ''offline''))
                 (blank_page\<lparr>initialQuestions := Some [(lit ''Q1''), (lit ''Q2'')]\<rparr>))
   \<and> initialQuestions blank_page = Some []
   \<and> length [] \<le> currentQuestionIndex blank_page
   \<and> askNextQuestion (Rejected (lit ''offline'')) blank_page
       = Inr (endInterview (Rejected (lit ''offline'')) blank_page)
   \<and> currentQuestionIndex (blank_page\<lparr>initialQuestions := Some [(lit ''Q1''), (lit ''Q2'')]\<rparr>) + 2
       \<le> length [(lit ''Q1''), (lit ''Q2'')]
   \<and> (\<exists>v'. askNextQuestion_times 2 (Rejected (lit ''offline''))
              (blank_page\<lparr>initialQuestions := Some [(lit ''Q1''), (lit ''Q2'')]\<rparr>) = Inr v'
          \<and> conversationHistory v' = [Entry Model (Some (lit ''Q1'')), Entry Model (Some (lit ''Q2''))]
          \<and> currentQuestionIndex v' = 2)
   \<and> currentQuestionIndex_ip (blank_ipage\<lparr>initialQuestions_ip := [(lit ''Q1''), (lit ''Q2'')]\<rparr>)
       < length (initialQuestions_ip (blank_ipage\<lparr>initialQuestions_ip := [(lit ''Q1''), (lit ''Q2'')]\<rparr>))
   \<and> conversationHistory_ip (askNextInitialQuestion (Rejected (lit ''offline''))
         (blank_ipage\<lparr>initialQuestions_ip := [(lit ''Q1''), (lit ''Q2'')]\<rparr>)) = [Entry Model (Some (lit ''Q1''))]
   \<and> length (initialQuestions_ip blank_ipage) \<le> currentQuestionIndex_ip blank_ipage
   \<and> askNextInitialQuestion (Rejected (lit ''offline'')) blank_ipage
       = endInterview_ip (Rejected (lit ''offline'')) blank_ipage
   \<and> currentQuestionIndex_ip (blank_ipage\<lparr>initialQuestions_ip := [(lit ''Q1''), (lit ''Q2'')]\<rparr>) + 2
       \<le> length (initialQuestions_ip (blank_ipage\<lparr>initialQuestions_ip := [(lit ''Q1''), (lit ''Q2'')]\<rparr>))
   \<and> conversationHistory_ip (askNextInitialQuestion_times 2 (Rejected (lit ''offline''))
         (blank_ipage\<lparr>initialQuestions_ip := [(lit ''Q1''), (lit ''Q2'')]\<rparr>))
       = [Entry Model (Some (lit ''Q1'')), Entry Model (Some (lit ''Q2''))]
   \<and> list_all interview_event
        [StartClick (Rejected (lit ''offline'')), RecognitionResult [(lit ''hello'')],
         RecognitionEnd (Response True \<lparr>followup_error = None, followup_question = Some (lit ''Why?'')\<rparr>),
         TimerFires (Rejected (lit ''offline''))]
   \<and> initialQuestions (run
        [StartClick (Rejected (lit ''offline'')), RecognitionResult [(lit ''hello'')],
         RecognitionEnd (Response True \<lparr>followup_error = None, followup_question = Some (lit ''Why?'')\<rparr>),
         TimerFires (Rejected (lit ''offline''))]
        (blank_page\<lparr>initialQuestions := Some [(lit ''Q1''), (lit ''Q2'')]\<rparr>)) = Some [(lit ''Q1''), (lit ''Why?''), (lit ''Q2'')]
   \<and> currentQuestionIndex (run
        [StartClick (Rejected (lit ''offline'')), RecognitionResult [(lit ''hello'')],
         RecognitionEnd (Response True \<lparr>followup_error = None, followup_question = Some (lit ''Why?'')\<rparr>),
         TimerFires (Rejected (lit ''offline''))]
        (blank_page\<lparr>initialQuestions := Some [(lit ''Q1''), (lit ''Q2'')]\<rparr>)) = 2
   \<and> texts_of Model (conversationHistory (run
        [StartClick (Rejected (lit ''offline'')), RecognitionResult [(lit ''hello'')],
         RecognitionEnd (Response True \<lparr>followup_error = None, followup_question = Some (lit ''Why?'')\<rparr>),
         TimerFires (Rejected (lit ''offline''))]
        (blank_page\<lparr>initialQuestions := Some [(lit ''Q1''), (lit ''Q2'')]\<rparr>))) = [Some (lit ''Q1''), Some (lit ''Why?'')]"
  using askNextQuestion_loop
    [where s = "blank_page\<lparr>initialQuestions := Some [(lit ''Q1''), (lit ''Q2'')]\<rparr>"
       and qs = "[(lit ''Q1''), (lit ''Q2'')]" and r = "Rejected (lit ''offline'')"
       and u = blank_page and ps = "[]"
       and v = "blank_page\<lparr>initialQuestions := Some [(lit ''Q1''), (lit ''Q2'')]\<rparr>"
       and ws = "[(lit ''Q1''), (lit ''Q2'')]" and k = 2
       and t = "blank_ipage\<lparr>initialQuestions_ip := [(lit ''Q1''), (lit ''Q2'')]\<rparr>"
       and x = blank_ipage
       and y = "blank_ipage\<lparr>initialQuestions_ip := [(lit ''Q1''), (lit ''Q2'')]\<rparr>" and n = 2
       and z = "blank_page\<lparr>initialQuestions := Some [(lit ''Q1''), (lit ''Q2'')]\<rparr>"
       and zs = "[(lit ''Q1''), (lit ''Q2'')]"
       and evs = "[StartClick (Rejected (lit ''offline'')), RecognitionResult [(lit ''hello'')],
         RecognitionEnd (Response True \<lparr>followup_error = None, followup_question = Some (lit ''Why?'')\<rparr>),
         TimerFires (Rejected (lit ''offline''))]"
       and w = blank_ipage and es = "[]"]
  by (auto simp add: blank_page_def blank_ipage_def interview_event_def texts_of_def
        keep_on_throw_def startInterviewBtn_click_def askNextQuestion_def speak_def
        updateStatus_def logToConversation_def recognition_onresult_def recognition_onend_def
        insert_followup_def followup_outcome_def splice_insert_def timer_fires_def Let_def)

section \<open>Where the questions come from\<close>




section \<open>The job-role form\<close>

text \<open>
  C3. When the trimmed job role is not empty and a resume file is selected,
  \<open>handleJobRoleSubmit\<close> sends the file and the trimmed job role to \<open>/api/analyze\<close>; with
  an ok response it sets \<open>initialQuestions\<close> to the \<open>questions\<close> field of the body, hides
  the upload section and shows the interview container.
\<close>

theorem handleJobRoleSubmit_request:
  assumes "trim (jobRoleInput s) \<noteq> []" and "resumeFile s = Some f"
  shows "requests (handleJobRoleSubmit resp s) =
           requests s @ [PostAnalyzeForm (Some f) (trim (jobRoleInput s))]
         \<and> initialQuestions (handleJobRoleSubmit (Response True d) s) = analyze_questions d
         \<and> uploadSection_hidden (handleJobRoleSubmit (Response True d) s)
         \<and> \<not> interviewContainer_hidden (handleJobRoleSubmit (Response True d) s)"
  using assms
  by (cases resp) (simp_all add: handleJobRoleSubmit_def analyze_outcome_def Let_def)

theorem handleJobRoleSubmit_request_witness:
  "trim (jobRoleInput (blank_page\<lparr>jobRoleInput := (lit ''dev'') @ [0xA0], resumeFile := Some (lit ''cv.pdf'')\<rparr>)) \<noteq> []
   \<and> resumeFile (blank_page\<lparr>jobRoleInput := (lit ''dev'') @ [0xA0], resumeFile := Some (lit ''cv.pdf'')\<rparr>) = Some (lit ''cv.pdf'')
   \<and> requests (handleJobRoleSubmit
         (Response True \<lparr>analyze_error = None, analyze_questions = Some [(lit ''Q1''), (lit ''Q2'')]\<rparr>)
         (blank_page\<lparr>jobRoleInput := (lit ''dev'') @ [0xA0], resumeFile := Some (lit ''cv.pdf'')\<rparr>))
       = [PostAnalyzeForm (Some (lit ''cv.pdf'')) (lit ''dev'')]
   \<and> initialQuestions (handleJobRoleSubmit
         (Response True \<lparr>analyze_error = None, analyze_questions = Some [(lit ''Q1''), (lit ''Q2'')]\<rparr>)
         (blank_page\<lparr>jobRoleInput := (lit ''dev'') @ [0xA0], resumeFile := Some (lit ''cv.pdf'')\<rparr>))
       = Some [(lit ''Q1''), (lit ''Q2'')]
   \<and> uploadSection_hidden (handleJobRoleSubmit
         (Response True \<lparr>analyze_error = None, analyze_questions = Some [(lit ''Q1''), (lit ''Q2'')]\<rparr>)
         (blank_page\<lparr>jobRoleInput := (lit ''dev'') @ [0xA0], resumeFile := Some (lit ''cv.pdf'')\<rparr>))
   \<and> \<not> interviewContainer_hidden (handleJobRoleSubmit
         (Response True \<lparr>analyze_error = None, analyze_questions = Some [(lit ''Q1''), (lit ''Q2'')]\<rparr>)
         (blank_page\<lparr>jobRoleInput := (lit ''dev'') @ [0xA0], resumeFile := Some (lit ''cv.pdf'')\<rparr>))"
  using handleJobRoleSubmit_request
    [where s = "blank_page\<lparr>jobRoleInput := (lit ''dev'') @ [0xA0], resumeFile := Some (lit ''cv.pdf'')\<rparr>"
       and f = "(lit ''cv.pdf'')"
       and resp = "Response True \<lparr>analyze_error = None, analyze_questions = Some [(lit ''Q1''), (lit ''Q2'')]\<rparr>"
       and d = "\<lparr>analyze_error = None, analyze_questions = Some [(lit ''Q1''), (lit ''Q2'')]\<rparr>"]
  by (simp add: trim_dev_nbsp blank_page_def)

text \<open>
  C5, as the spec states it: whenever the request fails, by a network error too, the upload
  error shows the response's error message, or \<open>Failed to analyze resume.\<close> when there is
  none. After a network error there is no response, and the page shows the message of the
  error that \<open>fetch\<close> threw; the same happens with the parser's error when a response
  has a body that is not JSON, since line 143 reads the body before line 144 tests \<open>ok\<close>.
\<close>

theorem analyze_failure_message_counterexample:
  "uploadError_text (handleJobRoleSubmit (Rejected (lit ''Failed to fetch''))
       (blank_page\<lparr>jobRoleInput := (lit '' dev ''), resumeFile := Some (lit ''cv.pdf'')\<rparr>))
     = (lit ''Failed to fetch'')
   \<and> uploadError_text (handleJobRoleSubmit (Rejected (lit ''Failed to fetch''))
       (blank_page\<lparr>jobRoleInput := (lit '' dev ''), resumeFile := Some (lit ''cv.pdf'')\<rparr>))
     \<noteq> (lit ''Failed to analyze resume.'')"
  by (simp add: handleJobRoleSubmit_def analyze_outcome_def trim_dev blank_page_def)

text \<open>
  C5, amended. When the request to \<open>/api/analyze\<close> fails, \<open>initialQuestions\<close> is left as
  it was, the upload loader is hidden, the upload error is shown, the select-resume
  button is enabled again and the interview is not started (sections, avatar, history and
  index are as before). When \<open>fetch\<close>, \<open>response.json()\<close> or the read of \<open>data.error\<close>
  threw (a network error, a body that is not JSON, a \<open>null\<close> body), the text shown is the
  message of the thrown error; otherwise the response is not ok, and the text is the
  \<open>error\<close> of its body, or \<open>Failed to analyze resume.\<close> when that is absent or empty.
\<close>

theorem handleJobRoleSubmit_failure:
  assumes "trim (jobRoleInput s) \<noteq> []"
    and "resp = Rejected m \<or> resp = Response False d"
  shows "initialQuestions (handleJobRoleSubmit resp s) = initialQuestions s
         \<and> uploadLoader_hidden (handleJobRoleSubmit resp s)
         \<and> uploadError_text (handleJobRoleSubmit resp s) =
             (case resp of
                Rejected e \<Rightarrow> e
              | Response ok b \<Rightarrow>
                  (case analyze_error b of
                     None \<Rightarrow> (lit ''Failed to analyze resume.'')
                   | Some e \<Rightarrow> if e = [] then (lit ''Failed to analyze resume.'') else e))
         \<and> \<not> uploadError_hidden (handleJobRoleSubmit resp s)
         \<and> \<not> selectResumeBtn_disabled (handleJobRoleSubmit resp s)
         \<and> uploadSection_hidden (handleJobRoleSubmit resp s) = uploadSection_hidden s
         \<and> interviewContainer_hidden (handleJobRoleSubmit resp s) = interviewContainer_hidden s
         \<and> avatarStarted (handleJobRoleSubmit resp s) = avatarStarted s
         \<and> conversationHistory (handleJobRoleSubmit resp s) = conversationHistory s
         \<and> currentQuestionIndex (handleJobRoleSubmit resp s) = currentQuestionIndex s"
  using assms
  by (auto simp add: handleJobRoleSubmit_def analyze_outcome_def or_str_def Let_def
           split: option.splits)

theorem handleJobRoleSubmit_failure_witness:
  "trim (jobRoleInput (blank_page\<lparr>jobRoleInput := (lit '' dev ''), resumeFile := Some (lit ''cv.pdf'')\<rparr>)) \<noteq> []
   \<and> (Response False \<lparr>analyze_error = Some (lit ''Bad file''), analyze_questions = Some [(lit ''Q1'')]\<rparr>
         = Rejected (lit '''')
       \<or> Response False \<lparr>analyze_error = Some (lit ''Bad file''), analyze_questions = Some [(lit ''Q1'')]\<rparr>
         = Response False \<lparr>analyze_error = Some (lit ''Bad file''), analyze_questions = Some [(lit ''Q1'')]\<rparr>)
   \<and> initialQuestions (handleJobRoleSubmit
         (Response False \<lparr>analyze_error = Some (lit ''Bad file''), analyze_questions = Some [(lit ''Q1'')]\<rparr>)
         (blank_page\<lparr>jobRoleInput := (lit '' dev ''), resumeFile := Some (lit ''cv.pdf'')\<rparr>)) = Some []
   \<and> uploadError_text (handleJobRoleSubmit
         (Response False \<lparr>analyze_error = Some (lit ''Bad file''), analyze_questions = Some [(lit ''Q1'')]\<rparr>)
         (blank_page\<lparr>jobRoleInput := (lit '' dev ''), resumeFile := Some (lit ''cv.pdf'')\<rparr>)) = (lit ''Bad file'')
   \<and> interviewContainer_hidden (handleJobRoleSubmit
         (Response False \<lparr>analyze_error = Some (lit ''Bad file''), analyze_questions = Some [(lit ''Q1'')]\<rparr>)
         (blank_page\<lparr>jobRoleInput := (lit '' dev ''), resumeFile := Some (lit ''cv.pdf'')\<rparr>))"
  using handleJobRoleSubmit_failure
    [where s = "blank_page\<lparr>jobRoleInput := (lit '' dev ''), resumeFile := Some (lit ''cv.pdf'')\<rparr>"
       and resp = "Response False \<lparr>analyze_error = Some (lit ''Bad file''), analyze_questions = Some [(lit ''Q1'')]\<rparr>"
       and m = "(lit '''')"
       and d = "\<lparr>analyze_error = Some (lit ''Bad file''), analyze_questions = Some [(lit ''Q1'')]\<rparr>"]
  by (simp add: trim_dev blank_page_def)

text \<open>
  C6. When the job-role input trims to the empty string, \<open>handleJobRoleSubmit\<close> only
  alerts the user: the state it returns is the one it was given with the alert added, so no
  request is sent and \<open>initialQuestions\<close>, \<open>conversationHistory\<close>, \<open>allUserAnswers\<close> and
  the visible sections are as before.
\<close>

theorem handleJobRoleSubmit_empty_role:
  assumes "trim (jobRoleInput s) = []"
  shows "handleJobRoleSubmit resp s =
           s\<lparr>alerts := alerts s @ [(lit ''Please enter a target job role.'')]\<rparr>
         \<and> requests (handleJobRoleSubmit resp s) = requests s
         \<and> initialQuestions (handleJobRoleSubmit resp s) = initialQuestions s
         \<and> conversationHistory (handleJobRoleSubmit resp s) = conversationHistory s
         \<and> allUserAnswers (handleJobRoleSubmit resp s) = allUserAnswers s
         \<and> uploadSection_hidden (handleJobRoleSubmit resp s) = uploadSection_hidden s
         \<and> interviewContainer_hidden (handleJobRoleSubmit resp s) = interviewContainer_hidden s"
  using assms by (simp add: handleJobRoleSubmit_def)

theorem handleJobRoleSubmit_empty_role_witness:
  "trim (jobRoleInput (blank_page\<lparr>jobRoleInput := [0xA0]\<rparr>)) = []
   \<and> requests (handleJobRoleSubmit
        (Response True \<lparr>analyze_error = None, analyze_questions = Some [(lit ''Q1'')]\<rparr>)
        (blank_page\<lparr>jobRoleInput := [0xA0]\<rparr>)) = []
   \<and> initialQuestions (handleJobRoleSubmit
        (Response True \<lparr>analyze_error = None, analyze_questions = Some [(lit ''Q1'')]\<rparr>)
        (blank_page\<lparr>jobRoleInput := [0xA0]\<rparr>)) = Some []
   \<and> alerts (handleJobRoleSubmit
        (Response True \<lparr>analyze_error = None, analyze_questions = Some [(lit ''Q1'')]\<rparr>)
        (blank_page\<lparr>jobRoleInput := [0xA0]\<rparr>)) = [(lit ''Please enter a target job role.'')]"
  using handleJobRoleSubmit_empty_role
    [of "blank_page\<lparr>jobRoleInput := [0xA0]\<rparr>"
        "Response True \<lparr>analyze_error = None, analyze_questions = Some [(lit ''Q1'')]\<rparr>"]
  by (simp add: trim_nbsp blank_page_def)

section \<open>The evaluation report\<close>

text \<open>
  C4. \<open>endInterview\<close> sends the list \<open>allUserAnswers\<close>, as it is, to \<open>/api/evaluate\<close>. With
  an ok response it renders the fields \<open>overallScore\<close>, \<open>strengths\<close>, \<open>weaknesses\<close> and
  \<open>suggestion\<close>, each replaced by \<open>N/A\<close> when it is absent or falsy; when the request
  fails it shows an error message and no report. Both scripts do so.
\<close>

theorem endInterview_report:
  "requests (endInterview resp s) = requests s @ [PostEvaluate (allUserAnswers s)]
   \<and> requests_ip (endInterview_ip resp t) = requests_ip t @ [PostEvaluate (allUserAnswers_ip t)]
   \<and> reportContent (endInterview (Response True r) s) =
        Report (if truthy (overallScore r) then overallScore r else JStr (lit ''N/A''))
               (if truthy (strengths r) then strengths r else JStr (lit ''N/A''))
               (if truthy (weaknesses r) then weaknesses r else JStr (lit ''N/A''))
               (if truthy (suggestion r) then suggestion r else JStr (lit ''N/A''))
   \<and> reportContent_ip (endInterview_ip (Response True r) t) =
        Report (if truthy (overallScore r) then overallScore r else JStr (lit ''N/A''))
               (if truthy (strengths r) then strengths r else JStr (lit ''N/A''))
               (if truthy (weaknesses r) then weaknesses r else JStr (lit ''N/A''))
               (if truthy (suggestion r) then suggestion r else JStr (lit ''N/A''))
   \<and> \<not> reportSection_hidden (endInterview_ip (Response True r) t)
   \<and> reportContent (endInterview (Rejected m) s) = ReportError m
   \<and> reportContent (endInterview (Response False b) s) =
        ReportError (error_message (report_error b))
   \<and> reportContent_ip (endInterview_ip (Rejected m) t) = reportContent_ip t
   \<and> reportSection_hidden (endInterview_ip (Rejected m) t) = reportSection_hidden t
   \<and> errorMessage_text (endInterview_ip (Rejected m) t) = (lit ''Error generating report: '') @ m
   \<and> reportContent_ip (endInterview_ip (Response False b) t) = reportContent_ip t
   \<and> reportSection_hidden (endInterview_ip (Response False b) t) = reportSection_hidden t
   \<and> errorMessage_text (endInterview_ip (Response False b) t) =
        (lit ''Error generating report: '') @ error_message (report_error b)"
proof -
  have ok: "evaluate_outcome (Response True r) = Inr r"
    and rej: "evaluate_outcome (Rejected m) = Inl m"
    and bad: "evaluate_outcome (Response False b) = Inl (error_message (report_error b))"
    by (simp_all add: evaluate_outcome_def)
  show ?thesis
    by (simp add: requests_endInterview requests_ip_endInterview_ip)
       (simp add: endInterview_def endInterview_ip_def ok rej bad render_report_def or_NA_def
          displayReport_def addMessageToBox_def updateStatus_def speak_def Let_def)
qed

theorem endInterview_report_witness:
  "requests (endInterview
       (Response True \<lparr>report_error = None, overallScore = JNum 0, strengths = JStr (lit ''clear''),
                        weaknesses = JUndefined, suggestion = JStr []\<rparr>)
       (blank_page\<lparr>allUserAnswers := [(lit ''a1''), (lit ''a2'')]\<rparr>))
     = [PostEvaluate [(lit ''a1''), (lit ''a2'')]]
   \<and> reportContent (endInterview
       (Response True \<lparr>report_error = None, overallScore = JNum 0, strengths = JStr (lit ''clear''),
                        weaknesses = JUndefined, suggestion = JStr []\<rparr>)
       (blank_page\<lparr>allUserAnswers := [(lit ''a1''), (lit ''a2'')]\<rparr>))
     = Report (JStr (lit ''N/A'')) (JStr (lit ''clear'')) (JStr (lit ''N/A'')) (JStr (lit ''N/A''))
   \<and> reportContent (endInterview (Rejected (lit ''Failed to fetch''))
       (blank_page\<lparr>allUserAnswers := [(lit ''a1''), (lit ''a2'')]\<rparr>))
     = ReportError (lit ''Failed to fetch'')
   \<and> errorMessage_text (endInterview_ip (Rejected (lit ''Failed to fetch'')) blank_ipage)
     = (lit ''Error generating report: Failed to fetch'')
   \<and> reportContent_ip (endInterview_ip (Rejected (lit ''Failed to fetch'')) blank_ipage) = NoReport"
  using endInterview_report
    [where s = "blank_page\<lparr>allUserAnswers := [(lit ''a1''), (lit ''a2'')]\<rparr>"
       and resp = "Response True \<lparr>report_error = None, overallScore = JNum 0,
                      strengths = JStr (lit ''clear''), weaknesses = JUndefined, suggestion = JStr []\<rparr>"
       and r = "\<lparr>report_error = None, overallScore = JNum 0,
                      strengths = JStr (lit ''clear''), weaknesses = JUndefined, suggestion = JStr []\<rparr>"
       and t = blank_ipage and m = "(lit ''Failed to fetch'')"]
  by (simp add: blank_page_def blank_ipage_def)

section \<open>Follow-up questions\<close>

text \<open>
  C8. In the \<open>onend\<close> handler with an answer recorded: when the response to
  \<open>/api/follow-up\<close> is ok and its \<open>question\<close> is neither empty nor \<open>[NEXT_QUESTION]\<close>, the
  question is put into \<open>initialQuestions\<close> at position \<open>currentQuestionIndex\<close>, the
  questions before and after it staying as they were and in their order, and the call of
  \<open>askNextQuestion\<close> that the handler schedules asks it. When the field is
  \<open>[NEXT_QUESTION]\<close>, empty or absent, or the request fails, \<open>initialQuestions\<close> is unchanged
  and the scheduled call asks the next question of the list. The list is an array and the
  index is within it, as \<open>askNextQuestion\<close> and the handler keep it.
\<close>

theorem followup_insertion:
  assumes "currentTranscript s \<noteq> []"
  shows "(initialQuestions s = Some qs \<and> currentQuestionIndex s \<le> length qs
          \<and> followup_question d = Some q \<and> q \<noteq> [] \<and> q \<noteq> (lit ''[NEXT_QUESTION]'') \<longrightarrow>
            initialQuestions (recognition_onend (Response True d) s) =
              Some (take (currentQuestionIndex s) qs @ q # drop (currentQuestionIndex s) qs)
            \<and> currentQuestionIndex (recognition_onend (Response True d) s) = currentQuestionIndex s
            \<and> (\<exists>s'. timer_fires e (recognition_onend (Response True d) s) = Inr s'
                  \<and> conversationHistory s' =
                      conversationHistory (recognition_onend (Response True d) s)
                        @ [Entry Model (Some q)]
                  \<and> questionText s' = q))
       \<and> (r = Rejected m \<or> r = Response False b
           \<or> (r = Response True b \<and>
               (followup_question b = None \<or> followup_question b = Some []
                \<or> followup_question b = Some (lit ''[NEXT_QUESTION]''))) \<longrightarrow>
            initialQuestions (recognition_onend r s) = initialQuestions s
            \<and> currentQuestionIndex (recognition_onend r s) = currentQuestionIndex s
            \<and> timer_fires e (recognition_onend r s) =
                askNextQuestion e ((recognition_onend r s)\<lparr>timers := timers s\<rparr>)
            \<and> (\<forall>ps. initialQuestions s = Some ps \<and> currentQuestionIndex s < length ps \<longrightarrow>
                  (\<exists>s'. timer_fires e (recognition_onend r s) = Inr s'
                     \<and> conversationHistory s' =
                         conversationHistory (recognition_onend r s)
                           @ [Entry Model (Some (ps ! currentQuestionIndex s))]
                     \<and> questionText s' = ps ! currentQuestionIndex s)))"
proof (intro conjI impI)
  assume h: "initialQuestions s = Some qs \<and> currentQuestionIndex s \<le> length qs
          \<and> followup_question d = Some q \<and> q \<noteq> [] \<and> q \<noteq> (lit ''[NEXT_QUESTION]'')"
  let ?s1 = "recognition_onend (Response True d) s"
  let ?i = "currentQuestionIndex s"
  have iq: "initialQuestions ?s1 = Some (splice_insert ?i q qs)"
    using initialQuestions_onend_insert[OF assms, of qs d q] h by simp
  then show "initialQuestions ?s1 = Some (take ?i qs @ q # drop ?i qs)"
    using h by (simp add: splice_insert_in_range)
  show "currentQuestionIndex ?s1 = ?i" by (rule recognition_onend_fields)
  let ?s2 = "?s1\<lparr>timers := timers s\<rparr>"
  have "initialQuestions ?s2 = Some (splice_insert ?i q qs)" using iq by simp
  moreover have "currentQuestionIndex ?s2 < length (splice_insert ?i q qs)"
    using h by (simp add: recognition_onend_fields length_splice_insert)
  ultimately obtain s' where
    "askNextQuestion e ?s2 = Inr s'"
    "conversationHistory s' =
       conversationHistory ?s2 @ [Entry Model (Some (splice_insert ?i q qs ! currentQuestionIndex ?s2))]"
    "questionText s' = splice_insert ?i q qs ! currentQuestionIndex ?s2"
    using askNextQuestion_asks[of ?s2 "splice_insert ?i q qs" e] by blast
  then show "\<exists>s'. timer_fires e ?s1 = Inr s'
                  \<and> conversationHistory s' = conversationHistory ?s1 @ [Entry Model (Some q)]
                  \<and> questionText s' = q"
    using h by (simp add: timer_after_onend recognition_onend_fields splice_insert_nth)
next
  assume h: "r = Rejected m \<or> r = Response False b
           \<or> (r = Response True b \<and>
               (followup_question b = None \<or> followup_question b = Some []
                \<or> followup_question b = Some (lit ''[NEXT_QUESTION]'')))"
  show same: "initialQuestions (recognition_onend r s) = initialQuestions s"
    using h by (rule initialQuestions_onend_same)
  show "currentQuestionIndex (recognition_onend r s) = currentQuestionIndex s"
    by (rule recognition_onend_fields)
  show "timer_fires e (recognition_onend r s) =
                askNextQuestion e ((recognition_onend r s)\<lparr>timers := timers s\<rparr>)"
    by (rule timer_after_onend)
  show "\<forall>ps. initialQuestions s = Some ps \<and> currentQuestionIndex s < length ps \<longrightarrow>
                  (\<exists>s'. timer_fires e (recognition_onend r s) = Inr s'
                     \<and> conversationHistory s' =
                         conversationHistory (recognition_onend r s)
                           @ [Entry Model (Some (ps ! currentQuestionIndex s))]
                     \<and> questionText s' = ps ! currentQuestionIndex s)"
  proof (intro allI impI)
    fix ps assume p: "initialQuestions s = Some ps \<and> currentQuestionIndex s < length ps"
    let ?s2 = "(recognition_onend r s)\<lparr>timers := timers s\<rparr>"
    have "initialQuestions ?s2 = Some ps" using same p by simp
    moreover have "currentQuestionIndex ?s2 < length ps"
      using p by (simp add: recognition_onend_fields)
    ultimately obtain s' where
      "askNextQuestion e ?s2 = Inr s'"
      "conversationHistory s' = conversationHistory ?s2 @ [Entry Model (Some (ps ! currentQuestionIndex ?s2))]"
      "questionText s' = ps ! currentQuestionIndex ?s2"
      using askNextQuestion_asks[of ?s2 ps e] by blast
    then show "\<exists>s'. timer_fires e (recognition_onend r s) = Inr s'
                     \<and> conversationHistory s' =
                         conversationHistory (recognition_onend r s)
                           @ [Entry Model (Some (ps ! currentQuestionIndex s))]
                     \<and> questionText s' = ps ! currentQuestionIndex s"
      by (simp add: timer_after_onend recognition_onend_fields)
  qed
qed

theorem followup_insertion_witness:
  "currentTranscript (blank_page\<lparr>initialQuestions := Some [(lit ''Q1''), (lit ''Q2'')], currentQuestionIndex := 1,
       currentTranscript := (lit ''my answer'')\<rparr>) \<noteq> []
   \<and> initialQuestions (recognition_onend
        (Response True \<lparr>followup_error = None, followup_question = Some (lit ''Why?'')\<rparr>)
        (blank_page\<lparr>initialQuestions := Some [(lit ''Q1''), (lit ''Q2'')], currentQuestionIndex := 1,
           currentTranscript := (lit ''my answer'')\<rparr>))
      = Some [(lit ''Q1''), (lit ''Why?''), (lit ''Q2'')]
   \<and> (\<exists>s'. timer_fires (Rejected (lit ''offline''))
          (recognition_onend
             (Response True \<lparr>followup_error = None, followup_question = Some (lit ''Why?'')\<rparr>)
             (blank_page\<lparr>initialQuestions := Some [(lit ''Q1''), (lit ''Q2'')], currentQuestionIndex := 1,
                currentTranscript := (lit ''my answer'')\<rparr>)) = Inr s'
          \<and> questionText s' = (lit ''Why?''))
   \<and> initialQuestions (recognition_onend
        (Response True \<lparr>followup_error = None, followup_question = Some (lit ''[NEXT_QUESTION]'')\<rparr>)
        (blank_page\<lparr>initialQuestions := Some [(lit ''Q1''), (lit ''Q2'')], currentQuestionIndex := 1,
           currentTranscript := (lit ''my answer'')\<rparr>))
      = Some [(lit ''Q1''), (lit ''Q2'')]
   \<and> (\<exists>s'. timer_fires (Rejected (lit ''offline''))
          (recognition_onend
             (Response True \<lparr>followup_error = None, followup_question = Some (lit ''[NEXT_QUESTION]'')\<rparr>)
             (blank_page\<lparr>initialQuestions := Some [(lit ''Q1''), (lit ''Q2'')], currentQuestionIndex := 1,
                currentTranscript := (lit ''my answer'')\<rparr>)) = Inr s'
          \<and> questionText s' = (lit ''Q2''))"
  using followup_insertion
    [where s = "blank_page\<lparr>initialQuestions := Some [(lit ''Q1''), (lit ''Q2'')], currentQuestionIndex := 1,
                  currentTranscript := (lit ''my answer'')\<rparr>"
       and qs = "[(lit ''Q1''), (lit ''Q2'')]"
       and d = "\<lparr>followup_error = None, followup_question = Some (lit ''Why?'')\<rparr>"
       and q = "(lit ''Why?'')" and e = "Rejected (lit ''offline'')"
       and r = "Response True \<lparr>followup_error = None, followup_question = Some (lit ''[NEXT_QUESTION]'')\<rparr>"
       and m = "[]"
       and b = "\<lparr>followup_error = None, followup_question = Some (lit ''[NEXT_QUESTION]'')\<rparr>"]
  by (simp add: blank_page_def recognition_onend_def insert_followup_def followup_outcome_def
        splice_insert_def timer_fires_def askNextQuestion_def speak_def updateStatus_def
        logToConversation_def Let_def)

section \<open>Answers and history\<close>

text \<open>
  C9. After any sequence of handler invocations from the initial state, in either script,
  the entries of \<open>conversationHistory\<close> with role user are as many as the elements of
  \<open>allUserAnswers\<close>, and the text of the i-th of them is the i-th answer.
\<close>

theorem answers_history_invariant:
  "(fresh s0 \<longrightarrow>
      texts_of User (conversationHistory (run evs s0)) = map Some (allUserAnswers (run evs s0))
      \<and> length (user_entries (conversationHistory (run evs s0)))
          = length (allUserAnswers (run evs s0))
      \<and> (\<forall>i < length (allUserAnswers (run evs s0)).
            entry_text (user_entries (conversationHistory (run evs s0)) ! i)
              = Some (allUserAnswers (run evs s0) ! i)))
   \<and> (fresh_ip t0 \<longrightarrow>
        texts_of User (conversationHistory_ip (run_ip es (startInterview st e t0)))
          = map Some (allUserAnswers_ip (run_ip es (startInterview st e t0)))
        \<and> length (user_entries (conversationHistory_ip (run_ip es (startInterview st e t0))))
            = length (allUserAnswers_ip (run_ip es (startInterview st e t0)))
        \<and> (\<forall>i < length (allUserAnswers_ip (run_ip es (startInterview st e t0))).
              entry_text (user_entries (conversationHistory_ip
                            (run_ip es (startInterview st e t0))) ! i)
                = Some (allUserAnswers_ip (run_ip es (startInterview st e t0)) ! i)))"
proof (intro conjI impI)
  assume "fresh s0"
  then have "answers_match (conversationHistory s0) (allUserAnswers s0)"
    by (simp add: fresh_def answers_match_def texts_of_def)
  then have m: "answers_match (conversationHistory (run evs s0)) (allUserAnswers (run evs s0))"
    by (rule run_match)
  then show "texts_of User (conversationHistory (run evs s0))
               = map Some (allUserAnswers (run evs s0))"
    by (simp add: answers_match_def)
  from answers_match_nth[OF m]
  show "length (user_entries (conversationHistory (run evs s0)))
          = length (allUserAnswers (run evs s0))"
    by (simp add: user_entries_def)
  from answers_match_nth[OF m]
  show "\<forall>i < length (allUserAnswers (run evs s0)).
            entry_text (user_entries (conversationHistory (run evs s0)) ! i)
              = Some (allUserAnswers (run evs s0) ! i)"
    by (simp add: user_entries_def)
next
  assume "fresh_ip t0"
  then have "answers_match (conversationHistory_ip (startInterview st e t0))
               (allUserAnswers_ip (startInterview st e t0))"
    by (rule startInterview_match)
  then have m: "answers_match (conversationHistory_ip (run_ip es (startInterview st e t0)))
                  (allUserAnswers_ip (run_ip es (startInterview st e t0)))"
    by (rule run_ip_match)
  then show "texts_of User (conversationHistory_ip (run_ip es (startInterview st e t0)))
               = map Some (allUserAnswers_ip (run_ip es (startInterview st e t0)))"
    by (simp add: answers_match_def)
  from answers_match_nth[OF m]
  show "length (user_entries (conversationHistory_ip (run_ip es (startInterview st e t0))))
          = length (allUserAnswers_ip (run_ip es (startInterview st e t0)))"
    by (simp add: user_entries_def)
  from answers_match_nth[OF m]
  show "\<forall>i < length (allUserAnswers_ip (run_ip es (startInterview st e t0))).
              entry_text (user_entries (conversationHistory_ip
                            (run_ip es (startInterview st e t0))) ! i)
                = Some (allUserAnswers_ip (run_ip es (startInterview st e t0)) ! i)"
    by (simp add: user_entries_def)
qed

theorem answers_history_invariant_witness:
  "fresh blank_page
   \<and> texts_of User (conversationHistory
        (run [RecognitionResult [(lit ''hello'')],
              RecognitionEnd (Response True \<lparr>followup_error = None, followup_question = Some (lit ''Why?'')\<rparr>)]
           blank_page))
      = map Some (allUserAnswers
        (run [RecognitionResult [(lit ''hello'')],
              RecognitionEnd (Response True \<lparr>followup_error = None, followup_question = Some (lit ''Why?'')\<rparr>)]
           blank_page))
   \<and> allUserAnswers
        (run [RecognitionResult [(lit ''hello'')],
              RecognitionEnd (Response True \<lparr>followup_error = None, followup_question = Some (lit ''Why?'')\<rparr>)]
           blank_page) = [(lit ''hello'')]
   \<and> fresh_ip blank_ipage
   \<and> texts_of User (conversationHistory_ip
        (run_ip [TypeAnswer (lit ''yes''),
                 SubmitAnswer (Response True \<lparr>followup_error = None, followup_question = Some (lit ''Why?'')\<rparr>)
                   (Rejected (lit ''offline''))]
           (startInterview None (Rejected (lit ''offline'')) blank_ipage)))
      = map Some (allUserAnswers_ip
        (run_ip [TypeAnswer (lit ''yes''),
                 SubmitAnswer (Response True \<lparr>followup_error = None, followup_question = Some (lit ''Why?'')\<rparr>)
                   (Rejected (lit ''offline''))]
           (startInterview None (Rejected (lit ''offline'')) blank_ipage)))"
  using answers_history_invariant
    [where ?s0.0 = blank_page
       and evs = "[RecognitionResult [(lit ''hello'')],
              RecognitionEnd (Response True \<lparr>followup_error = None, followup_question = Some (lit ''Why?'')\<rparr>)]"
       and ?t0.0 = blank_ipage
       and es = "[TypeAnswer (lit ''yes''),
                 SubmitAnswer (Response True \<lparr>followup_error = None, followup_question = Some (lit ''Why?'')\<rparr>)
                   (Rejected (lit ''offline''))]"
       and st = None and e = "Rejected (lit ''offline'')"]
  by (simp add: fresh_def fresh_ip_def blank_page_def blank_ipage_def recognition_onresult_def
        recognition_onend_def insert_followup_def followup_outcome_def updateStatus_def
        logToConversation_def splice_insert_def Let_def)

section \<open>Empty submissions\<close>

text \<open>
  C10. \<open>handleAnswerSubmission\<close> returns at once, changing nothing and sending nothing,
  when the answer input trims to the empty string. The \<open>onend\<close> handler with an empty
  transcript records no answer and sends no request: it only resets the recording state
  and schedules \<open>askNextQuestion\<close>, which the timer then calls.
\<close>

theorem empty_submission_noop:
  "(trim (userAnswer_value t) = [] \<longrightarrow> handleAnswerSubmission f e t = t)
   \<and> (currentTranscript s = [] \<longrightarrow>
        recognition_onend f s =
          (updateStatus (lit ''status-processing'') (lit ''Processing...'') (s\<lparr>isRecording := False\<rparr>))
            \<lparr>recordBtn_label := (lit ''Record Answer''), recordBtn_is_recording := False,
             timers := timers s + 1\<rparr>
        \<and> allUserAnswers (recognition_onend f s) = allUserAnswers s
        \<and> conversationHistory (recognition_onend f s) = conversationHistory s
        \<and> requests (recognition_onend f s) = requests s
        \<and> initialQuestions (recognition_onend f s) = initialQuestions s
        \<and> timer_fires e (recognition_onend f s) =
            askNextQuestion e ((recognition_onend f s)\<lparr>timers := timers s\<rparr>))"
  by (simp add: handleAnswerSubmission_def recognition_onend_def updateStatus_def
        timer_fires_def Let_def)

theorem empty_submission_noop_witness:
  "trim (userAnswer_value (blank_ipage\<lparr>userAnswer_value := [0xA0]\<rparr>)) = []
   \<and> handleAnswerSubmission
        (Response True \<lparr>followup_error = None, followup_question = Some (lit ''Why?'')\<rparr>)
        (Rejected (lit ''offline'')) (blank_ipage\<lparr>userAnswer_value := [0xA0]\<rparr>)
      = blank_ipage\<lparr>userAnswer_value := [0xA0]\<rparr>
   \<and> currentTranscript blank_page = []
   \<and> allUserAnswers (recognition_onend
        (Response True \<lparr>followup_error = None, followup_question = Some (lit ''Why?'')\<rparr>) blank_page) = []
   \<and> requests (recognition_onend
        (Response True \<lparr>followup_error = None, followup_question = Some (lit ''Why?'')\<rparr>) blank_page) = []
   \<and> timers (recognition_onend
        (Response True \<lparr>followup_error = None, followup_question = Some (lit ''Why?'')\<rparr>) blank_page) = 1"
  using empty_submission_noop
    [where t = "blank_ipage\<lparr>userAnswer_value := [0xA0]\<rparr>"
       and f = "Response True \<lparr>followup_error = None, followup_question = Some (lit ''Why?'')\<rparr>"
       and e = "Rejected (lit ''offline'')" and s = blank_page]
  by (simp add: trim_nbsp blank_page_def blank_ipage_def updateStatus_def)

section \<open>The avatar follows the volume\<close>

text \<open>
  C7. On a frame with the analyser (and the avatar) in place, \<open>animateAvatar\<close> returns; the
  new \<open>smoothedVolume\<close> is \<open>smoothedVolume + (targetScale - smoothedVolume) * 0.2\<close> with
  \<open>targetScale = 1 + (avg / 128) * 0.7\<close> and \<open>avg\<close> the sum of the bytes divided by their
  number, every operation and decimal literal rounded as doubles are; the x, y and z
  scale of the avatar are all set to that new value. In exact arithmetic these are the
  formulas as written. For any monotone rounding the new value grows with the sum of the
  bytes. The rounding is taken to return the natural numbers up to 255 times the number
  of bytes unchanged, which doubles do.
\<close>

theorem animateAvatar_volume:
  assumes "analyser s" and "avatar s" and "bs \<noteq> []" and "exact_upto fl (255 * length bs)"
  shows "animateAvatar fl bs s =
           Inr (s\<lparr>smoothedVolume := frame_volume fl bs (smoothedVolume s),
                  avatar_scale := (frame_volume fl bs (smoothedVolume s),
                                   frame_volume fl bs (smoothedVolume s),
                                   frame_volume fl bs (smoothedVolume s)),
                  frames_requested := frames_requested s + 1,
                  rendered := rendered s + 1\<rparr>)
         \<and> frame_volume fl bs sv =
             fl (sv + fl (fl (fl (1 + fl (fl (fl (real (byte_sum bs) / real (length bs)) / 128)
                                          * fl (7 / 10)))
                              - sv)
                          * fl (2 / 10)))
         \<and> frame_volume (\<lambda>x. x) bs sv =
             sv + ((1 + ((real (byte_sum bs) / real (length bs)) / 128) * (7 / 10)) - sv) * (2 / 10)
         \<and> (mono fl \<and> length cs = length bs \<and> byte_sum bs \<le> byte_sum cs \<longrightarrow>
               frame_volume fl bs sv \<le> frame_volume fl cs sv)"
proof (intro conjI impI)
  show "animateAvatar fl bs s =
           Inr (s\<lparr>smoothedVolume := frame_volume fl bs (smoothedVolume s),
                  avatar_scale := (frame_volume fl bs (smoothedVolume s),
                                   frame_volume fl bs (smoothedVolume s),
                                   frame_volume fl bs (smoothedVolume s)),
                  frames_requested := frames_requested s + 1,
                  rendered := rendered s + 1\<rparr>)"
    using assms(4,3,1,2) by (rule animateAvatar_active)
  show "frame_volume fl bs sv =
             fl (sv + fl (fl (fl (1 + fl (fl (fl (real (byte_sum bs) / real (length bs)) / 128)
                                          * fl (7 / 10)))
                              - sv)
                          * fl (2 / 10)))"
    by (simp add: frame_volume_def smooth_def targetScale_of_def)
  show "frame_volume (\<lambda>x. x) bs sv =
             sv + ((1 + ((real (byte_sum bs) / real (length bs)) / 128) * (7 / 10)) - sv) * (2 / 10)"
    by (simp add: frame_volume_def smooth_def targetScale_of_def)
next
  assume h: "mono fl \<and> length cs = length bs \<and> byte_sum bs \<le> byte_sum cs"
  have "fl (real 0) = real 0"
    using assms(4) unfolding exact_upto_def by blast
  then have z: "fl 0 = 0" by simp
  from h have "length bs = length cs" by simp
  with h z show "frame_volume fl bs sv \<le> frame_volume fl cs sv"
    by (intro frame_volume_mono) simp_all
qed

theorem animateAvatar_volume_witness:
  "analyser avatar_ready \<and> avatar avatar_ready \<and> replicate 32 (128 :: 8 word) \<noteq> []
   \<and> exact_upto (\<lambda>x. x) (255 * length (replicate 32 (128 :: 8 word)))
   \<and> animateAvatar (\<lambda>x. x) (replicate 32 128) avatar_ready =
       Inr (avatar_ready\<lparr>smoothedVolume := 17 / 50,
                         avatar_scale := (17 / 50, 17 / 50, 17 / 50),
                         frames_requested := 1, rendered := 1\<rparr>)
   \<and> mono (\<lambda>x :: real. x)
   \<and> length (replicate 32 (255 :: 8 word)) = length (replicate 32 (128 :: 8 word))
   \<and> byte_sum (replicate 32 128) \<le> byte_sum (replicate 32 255)
   \<and> frame_volume (\<lambda>x. x) (replicate 32 128) 0 \<le> frame_volume (\<lambda>x. x) (replicate 32 255) 0
   \<and> frame_volume (\<lambda>x. x) (replicate 32 255) 0 = 613 / 1280"
  using animateAvatar_volume
    [where s = avatar_ready and bs = "replicate 32 128" and fl = "\<lambda>x. x"
       and cs = "replicate 32 255" and sv = 0]
  by (simp add: avatar_ready_def exact_id mono_id byte_sum_replicate frame_volume_def
        smooth_def targetScale_of_def)

end
